theory Spec2Isabelle
  imports Complex_Main
begin

text \<open>
  An embedding of the type inference walker of the experimental analysis,
  libsolidity/analysis/experimental/TypeInference.cpp, which is ``the file'' below. Every
  function of the file has its counterpart here under its own name: the parsing of
  numeric literals as pure functions, and the functions of the walker as functions on
  the state that the walker reads and writes. What the file takes from the rest of the
  compiler (the type system and its environment, the annotations of the type registration,
  the error reporter, the dispatch of the syntax tree, the analyzer of inline assembly)
  is either a parameter or, where a property depends on it, written down from the
  specification and marked so.
\<close>

section \<open>Numeric literals\<close>

text \<open>
  The arbitrary-precision types of the source: \<^verbatim>\<open>bigint\<close> is an unbounded integer and
  \<^verbatim>\<open>rational\<close> a normalised fraction of two of them, whose denominator is positive.
\<close>

type_synonym bigint = int
type_synonym rational = rat

definition denominator :: "rational \<Rightarrow> bigint" where
  "denominator v = snd (quotient_of v)"

definition numerator :: "rational \<Rightarrow> bigint" where
  "numerator v = fst (quotient_of v)"

text \<open>
  Modelled from the spec: \<^verbatim>\<open>util::isDigit\<close> (libsolutil/StringUtils.h) is not part of the
  file; it accepts the ten decimal digits.
\<close>

definition isDigit :: "char \<Rightarrow> bool" where
  "isDigit c = (c \<in> set ''0123456789'')"

text \<open>
  The conversion \<^verbatim>\<open>bigint(std::string)\<close> belongs to the multiprecision library. It is a
  parameter \<open>bigintOf\<close> of the parsing functions: \<open>None\<close> stands for the exception the
  constructor throws, which the \<^verbatim>\<open>catch (...)\<close> of both functions turns into
  \<^verbatim>\<open>nullopt\<close>.
\<close>

type_synonym bigintParser = "string \<Rightarrow> bigint option"

definition parseRational :: "bigintParser \<Rightarrow> string \<Rightarrow> rational option" where
  "parseRational bigintOf v =
     (if CHR ''.'' \<in> set v then
        (let integral = takeWhile (\<lambda>c. c \<noteq> CHR ''.'') v;
             fractional = tl (dropWhile (\<lambda>c. c \<noteq> CHR ''.'') v)
         in if \<not> list_all isDigit fractional \<or> \<not> list_all isDigit integral then None
            else (case bigintOf (dropWhile (\<lambda>a. a = CHR ''0'') fractional) of
                    None \<Rightarrow> None
                  | Some d \<Rightarrow>
                      (case bigintOf integral of
                         None \<Rightarrow> None
                       | Some n \<Rightarrow>
                           Some (of_int n
                                 + of_int d / of_int (10 ^ (length fractional mod 2 ^ 32))))))
      else map_option of_int (bigintOf v))"

text \<open>
  \<^verbatim>\<open>fitsPrecisionBaseX\<close> (libsolutil/Numeric.cpp) is not part of the file and computes in
  floating point; it is a parameter. Its second argument is the \<^verbatim>\<open>double\<close> literal of the
  source, passed on as the decimal fraction that is written there.
\<close>

type_synonym precisionCheck = "bigint \<Rightarrow> rat \<Rightarrow> nat \<Rightarrow> bool"

definition fitsPrecisionBase10 :: "precisionCheck \<Rightarrow> bigint \<Rightarrow> nat \<Rightarrow> bool" where
  "fitsPrecisionBase10 fitsPrecisionBaseX mantissa expBase10 =
     fitsPrecisionBaseX mantissa (33219280948873624 / 10 ^ 16) expBase10"

datatype SubDenomination =
  NoneSD | Wei | Gwei | Ether | Second | Minute | Hour | Day | Week | Year

text \<open>
  The tokens the file tests for; any other token of the scanner is an \<open>OtherToken\<close>.
\<close>

datatype Token = Number | Colon | RightArrow | OtherToken nat

record Literal =
  token :: Token
  valueWithoutUnderscores :: string
  subDenomination :: SubDenomination

text \<open>
  The position \<^verbatim>\<open>expPoint\<close>: the first \<^verbatim>\<open>e\<close> of the string, the first \<^verbatim>\<open>E\<close> when there is
  no \<^verbatim>\<open>e\<close>, and the length of the string (its end) when there is neither.
\<close>

definition expPoint :: "string \<Rightarrow> nat" where
  "expPoint s =
     (if CHR ''e'' \<in> set s then length (takeWhile (\<lambda>c. c \<noteq> CHR ''e'') s)
      else length (takeWhile (\<lambda>c. c \<noteq> CHR ''E'') s))"

definition starts_with :: "string \<Rightarrow> string \<Rightarrow> bool" where
  "starts_with s p = (take (length p) s = p)"

text \<open>The scientific-notation branch of \<^verbatim>\<open>rationalValue\<close>.\<close>

definition scientificValue ::
  "bigintParser \<Rightarrow> precisionCheck \<Rightarrow> string \<Rightarrow> rational option" where
  "scientificValue bigintOf fitsX valueString =
     (case parseRational bigintOf (take (expPoint valueString) valueString) of
        None \<Rightarrow> None
      | Some mantissa \<Rightarrow>
          if mantissa = 0 then None
          else (case bigintOf (drop (Suc (expPoint valueString)) valueString) of
                  None \<Rightarrow> None
                | Some exponent \<Rightarrow>
                    if exponent > 2147483647 \<or> exponent < - 2147483648 then None
                    else (let expAbs = nat \<bar>exponent\<bar> in
                          if exponent < 0 then
                            (if \<not> fitsPrecisionBase10 fitsX \<bar>denominator mantissa\<bar> expAbs
                             then None
                             else Some (mantissa / of_int (10 ^ expAbs)))
                          else if exponent > 0 then
                            (if \<not> fitsPrecisionBase10 fitsX \<bar>numerator mantissa\<bar> expAbs
                             then None
                             else Some (mantissa * of_int (10 ^ expAbs)))
                          else Some mantissa)))"

text \<open>The value computed inside the \<^verbatim>\<open>try\<close> block, before the sub-denomination applies.\<close>

definition parsedValue ::
  "bigintParser \<Rightarrow> precisionCheck \<Rightarrow> string \<Rightarrow> rational option" where
  "parsedValue bigintOf fitsX valueString =
     (if starts_with valueString ''0x'' then map_option of_int (bigintOf valueString)
      else if expPoint valueString \<noteq> length valueString
        then scientificValue bigintOf fitsX valueString
      else parseRational bigintOf valueString)"

definition subDenominationFactor :: "SubDenomination \<Rightarrow> bigint" where
  "subDenominationFactor d =
     (case d of
        NoneSD \<Rightarrow> 1
      | Wei \<Rightarrow> 1
      | Second \<Rightarrow> 1
      | Gwei \<Rightarrow> 1000000000
      | Ether \<Rightarrow> 1000000000000000000
      | Minute \<Rightarrow> 60
      | Hour \<Rightarrow> 3600
      | Day \<Rightarrow> 86400
      | Week \<Rightarrow> 604800
      | Year \<Rightarrow> 31536000)"

definition rationalValue ::
  "bigintParser \<Rightarrow> precisionCheck \<Rightarrow> Literal \<Rightarrow> rational option" where
  "rationalValue bigintOf fitsX lit =
     (case parsedValue bigintOf fitsX (valueWithoutUnderscores lit) of
        None \<Rightarrow> None
      | Some v \<Rightarrow> Some (v * of_int (subDenominationFactor (subDenomination lit))))"

text \<open>
  An instance of the parameter \<open>bigintOf\<close>, after the string constructor of the
  multiprecision library's integer: an optional minus sign, then \<^verbatim>\<open>0x\<close> or \<^verbatim>\<open>0X\<close> for
  hexadecimal digits, a leading \<^verbatim>\<open>0\<close> for octal digits, decimal digits otherwise; the empty
  digit string is zero and any other character is an exception. The concrete evaluations
  below use it.
\<close>

definition digitValue :: "char \<Rightarrow> nat option" where
  "digitValue c =
     (if c \<in> set ''0123456789'' then Some (of_char c - 48)
      else if c \<in> set ''abcdef'' then Some (of_char c - 87)
      else if c \<in> set ''ABCDEF'' then Some (of_char c - 55)
      else None)"

fun digitsValue :: "nat \<Rightarrow> string \<Rightarrow> int \<Rightarrow> int option" where
  "digitsValue radix [] acc = Some acc"
| "digitsValue radix (c # cs) acc =
     (case digitValue c of
        None \<Rightarrow> None
      | Some v \<Rightarrow> if v < radix then digitsValue radix cs (acc * int radix + int v) else None)"

definition cpp_int_of_string :: bigintParser where
  "cpp_int_of_string s =
     (let isneg = (s \<noteq> [] \<and> hd s = CHR ''-'');
          digits = (if isneg then tl s else s);
          magnitude =
            (if digits \<noteq> [] \<and> hd digits = CHR ''0'' then
               (if length digits > 1 \<and> (digits ! 1 = CHR ''x'' \<or> digits ! 1 = CHR ''X'')
                then digitsValue 16 (drop 2 digits) 0
                else digitsValue 8 (tl digits) 0)
             else digitsValue 10 digits 0)
      in map_option (\<lambda>m. if isneg then - m else m) magnitude)"

section \<open>Types, sorts and the syntax tree\<close>

text \<open>
  Modelled from the spec: the type representation (TypeSystem.h) is not part of the file.
  A type is a variable with an index and a sort, or a constructor applied to a list of
  types. A sort is a set of type classes; it is held as the list of its classes in the
  ascending order in which the source walks the set. Type classes and type constructors
  are opaque identities.
\<close>

type_synonym TypeClass = nat
type_synonym TypeConstructor = nat
type_synonym Sort = "TypeClass list"

datatype Type =
  TypeConstant TypeConstructor "Type list"
| TypeVariable nat Sort

text \<open>
  Modelled from the spec: the failures of \<^verbatim>\<open>TypeEnvironment::unify\<close> and the arity of an
  instantiation (TypeSystem.h, TypeEnvironment.h).
\<close>

datatype UnificationFailure =
  TypeMismatch Type Type
| SortMismatch Type Sort
| RecursiveUnification Type Type

record Arity =
  argumentSorts :: "Sort list"
  arityClass :: TypeClass

text \<open>
  The enumerations of the headers, with the values that the file refers to; the built-in
  classes other than the integer class are \<open>OtherBuiltinClass\<close>.
\<close>

datatype PrimitiveType = Void | Word | Integer | Unit | Bool

datatype BuiltinClass = IntegerClass | OtherBuiltinClass nat

datatype ExpressionContext = Term | Type | Sort

text \<open>
  Nodes of the syntax tree are referred to by identity, as the pointers of the source do; a
  \<open>NodeId\<close> stands for the address of a node. The tree itself is a table from identities
  to nodes, each node holding the parts that the walker reads. A node of a kind without a
  visit function in the file is an \<open>OtherNode\<close>.
\<close>

type_synonym NodeId = nat

datatype TypeClassName = ClassPath NodeId | ClassToken Token

datatype ASTNode =
  FunctionDefinition string NodeId "NodeId option" bool NodeId
    \<comment> \<open>name, parameterList, returnParameterList, isImplemented, body\<close>
| Return "NodeId option"
    \<comment> \<open>expression\<close>
| ParameterList "NodeId list"
    \<comment> \<open>parameters\<close>
| TypeClassDefinition string NodeId "NodeId list"
    \<comment> \<open>name, typeVariable, subNodes\<close>
| InlineAssembly
| ElementaryTypeNameExpression
| BinaryOperation Token NodeId NodeId
    \<comment> \<open>getOperator, leftExpression, rightExpression\<close>
| VariableDeclarationStatement "NodeId list" "NodeId option"
    \<comment> \<open>declarations, initialValue\<close>
| VariableDeclaration "NodeId option" "NodeId option"
    \<comment> \<open>value, typeExpression\<close>
| Assignment NodeId NodeId
    \<comment> \<open>leftHandSide, rightHandSide\<close>
| Identifier "NodeId option"
    \<comment> \<open>annotation().referencedDeclaration\<close>
| TupleExpression "NodeId list"
    \<comment> \<open>components\<close>
| IdentifierPath "NodeId option"
    \<comment> \<open>annotation().referencedDeclaration\<close>
| TypeClassInstantiation NodeId TypeClassName NodeId "NodeId option" "NodeId list"
    \<comment> \<open>typeClass (the name node), typeClass().name(), typeConstructor, argumentSorts,
      subNodes\<close>
| MemberAccess NodeId string
    \<comment> \<open>expression, memberName\<close>
| TypeDefinition "NodeId option" "NodeId option"
    \<comment> \<open>arguments, typeExpression\<close>
| FunctionCall NodeId "NodeId list"
    \<comment> \<open>expression, arguments\<close>
| LiteralNode Literal
| OtherNode

definition isFunctionDefinition :: "ASTNode \<Rightarrow> bool" where
  "isFunctionDefinition n = (case n of FunctionDefinition _ _ _ _ _ \<Rightarrow> True | _ \<Rightarrow> False)"


definition isTypeClassDefinition :: "ASTNode \<Rightarrow> bool" where
  "isTypeClassDefinition n = (case n of TypeClassDefinition _ _ _ \<Rightarrow> True | _ \<Rightarrow> False)"


definition functionName :: "ASTNode \<Rightarrow> string" where
  "functionName n = (case n of FunctionDefinition name _ _ _ _ \<Rightarrow> name | _ \<Rightarrow> [])"

definition parametersOf :: "ASTNode \<Rightarrow> NodeId list" where
  "parametersOf n = (case n of ParameterList ps \<Rightarrow> ps | _ \<Rightarrow> [])"

text \<open>
  Identifiers of inline assembly belong to the assembly's own tree; they are referred to by
  identity as well. The annotation of an inline assembly node holds, for each identifier
  that refers to something outside the assembly, what it refers to.
\<close>

type_synonym YulIdentifier = nat

datatype IdentifierContext = LValue | RValue | VariableDeclarationContext | NonExternal

record ExternalIdentifierInfo =
  externalDeclaration :: "NodeId option"
  suffix :: string
  valueSize :: nat

record InlineAssemblyAnnotation =
  externalReferences :: "YulIdentifier \<rightharpoonup> ExternalIdentifierInfo"
  analysisInfo :: bool

text \<open>
  A source location is the location of a node, the location of the member name of a
  member access, or the location from which an identifier of inline assembly originates.
\<close>

datatype SourceLocation =
  LocationOf NodeId | MemberLocationOf NodeId | OriginLocationOf YulIdentifier

text \<open>
  Modelled from the spec: the diagnostic reporter (liblangutil/ErrorReporter.h) is not
  part of the file. \<^verbatim>\<open>typeError\<close> records a diagnostic and returns; \<^verbatim>\<open>fatalTypeError\<close>
  records it and never returns. The reporter is the list of the diagnostics it has
  received. The secondary locations of a diagnostic are kept as a set: where the source
  attaches one for each element of a set of pointers, their order is the order of the
  addresses.
\<close>

record Diagnostic =
  location :: SourceLocation
  secondary :: "(string \<times> SourceLocation) set"
  message :: string

type_synonym ErrorReporter = "Diagnostic list"

definition hasErrors :: "ErrorReporter \<Rightarrow> bool" where
  "hasErrors r = (r \<noteq> [])"

section \<open>The state of the walker\<close>

record Annotation =
  type :: "Type option"
  typeClass :: "TypeClass option"

record TypeMember =
  memberType :: Type

record GlobalAnnotation =
  members :: "TypeConstructor \<rightharpoonup> (string \<rightharpoonup> TypeMember)"

text \<open>
  Modelled from the spec: the type system (TypeSystem.cpp) is not part of the file. It
  counts the variables it has handed out, so that \<^verbatim>\<open>freshTypeVariable\<close> returns a variable
  that was not used before and that carries the sort it is given; the environment
  (substitution, class and instance tables, constructors) is the opaque part \<open>env\<close>.
\<close>

record 'e TypeSystem =
  numTypeVariables :: nat
  env :: 'e

definition freshTypeVariable :: "Sort \<Rightarrow> 'e TypeSystem \<Rightarrow> Type \<times> 'e TypeSystem" where
  "freshTypeVariable srt ts =
     (TypeVariable (numTypeVariables ts) srt,
      ts\<lparr>numTypeVariables := Suc (numTypeVariables ts)\<rparr>)"

text \<open>
  Modelled from the spec: \<^verbatim>\<open>TypeSystem::type\<close> applies a constructor to arguments, and the
  helpers \<^verbatim>\<open>isTypeConstant\<close> and \<^verbatim>\<open>destTypeConstant\<close> (TypeSystemHelper.cpp) recognise and
  take apart such an application; taking apart a variable fails.
\<close>

definition typeSystem_type :: "TypeConstructor \<Rightarrow> Type list \<Rightarrow> Type" where
  "typeSystem_type constructor arguments = TypeConstant constructor arguments"

definition isTypeConstant :: "Type \<Rightarrow> bool" where
  "isTypeConstant t = (case t of TypeConstant _ _ \<Rightarrow> True | TypeVariable _ _ \<Rightarrow> False)"

fun destTypeConstant :: "Type \<Rightarrow> (TypeConstructor \<times> Type list) option" where
  "destTypeConstant (TypeConstant c args) = Some (c, args)"
| "destTypeConstant (TypeVariable i s) = None"

text \<open>
  The state that the walker reads and writes: the annotation of every node and the global
  annotation (both kept by the analysis object), the annotation of the inline assembly
  nodes (kept in the tree), the error reporter, the type system, and the walker's own
  fields.
\<close>

record 'e TypeInference =
  nodeAnnotation :: "NodeId \<Rightarrow> Annotation"
  globalAnnotation :: GlobalAnnotation
  assemblyAnnotation :: "NodeId \<Rightarrow> InlineAssemblyAnnotation"
  m_errorReporter :: ErrorReporter
  m_typeSystem :: "'e TypeSystem"
  m_expressionContext :: ExpressionContext
  m_currentFunctionType :: "Type option"
  m_activeInstantiations :: "NodeId set"

text \<open>
  A function of the walker takes the state and either returns a value with the new state
  or leaves by an exception, also with the state it has reached: \<^verbatim>\<open>FatalError\<close> is thrown
  by \<^verbatim>\<open>fatalTypeError\<close>, \<^verbatim>\<open>InternalCompilerError\<close> by a failed \<^verbatim>\<open>solAssert\<close> and by
  \<^verbatim>\<open>util::unreachable\<close>, and \<^verbatim>\<open>OutOfRange\<close> by \<^verbatim>\<open>map::at\<close> on a missing key.
\<close>

datatype Exception = FatalError | InternalCompilerError | OutOfRange

text \<open>
  What the walker takes from the rest of the compiler and does not change: the tree, the
  annotations of the type registration pass, and the operations of the type system, its
  environment and its helpers, none of which is part of the file. An operation that the
  source calls on the type system takes the type system and, where it may change it,
  returns the new one.
\<close>

record Registration =
  typeConstructorOf :: "NodeId \<Rightarrow> TypeConstructor option"
  instantiationsOf :: "NodeId \<Rightarrow> (TypeConstructor \<times> NodeId) list"
  operators :: "Token \<rightharpoonup> (TypeClass \<times> string)"
  builtinClasses :: "BuiltinClass \<rightharpoonup> TypeClass"
  builtinClassInstantiations :: "BuiltinClass \<rightharpoonup> (TypeConstructor \<times> NodeId) list"
  builtinClassesByName :: "string \<rightharpoonup> BuiltinClass"
  builtinClassFromToken :: "Token \<Rightarrow> BuiltinClass option"

record 'e TypeSystemOps =
  primitiveConstructor :: "PrimitiveType \<Rightarrow> TypeConstructor"
  constructorArguments :: "TypeConstructor \<Rightarrow> 'e TypeSystem \<Rightarrow> nat"
  freshKindVariable :: "Sort \<Rightarrow> 'e TypeSystem \<Rightarrow> Type \<times> 'e TypeSystem"
  declareTypeClass ::
    "Type \<Rightarrow> (string \<rightharpoonup> Type) \<Rightarrow> string \<Rightarrow> NodeId \<Rightarrow> 'e TypeSystem
       \<Rightarrow> (string + TypeClass) \<times> 'e TypeSystem"
  instantiateClass ::
    "Type \<Rightarrow> Arity \<Rightarrow> (string \<rightharpoonup> Type) \<Rightarrow> 'e TypeSystem \<Rightarrow> string option \<times> 'e TypeSystem"
  typeClassDeclaration :: "TypeClass \<Rightarrow> 'e TypeSystem \<Rightarrow> NodeId option"
  typeClassName :: "TypeClass \<Rightarrow> 'e TypeSystem \<Rightarrow> string"
  env_unify :: "Type \<Rightarrow> Type \<Rightarrow> 'e TypeSystem \<Rightarrow> UnificationFailure list \<times> 'e TypeSystem"
  env_fresh :: "Type \<Rightarrow> 'e TypeSystem \<Rightarrow> Type \<times> 'e TypeSystem"
  env_resolve :: "Type \<Rightarrow> 'e TypeSystem \<Rightarrow> Type"
  env_sort :: "Type \<Rightarrow> 'e TypeSystem \<Rightarrow> Sort"
  env_typeClassFunction :: "TypeClass \<Rightarrow> string \<Rightarrow> 'e TypeSystem \<Rightarrow> Type option"
  typeVars :: "Type \<Rightarrow> 'e TypeSystem \<Rightarrow> Type list"
  typeToString :: "Type \<Rightarrow> 'e TypeSystem \<Rightarrow> string"
  sortToString :: "Sort \<Rightarrow> string"

record TypeSystemHelpers =
  tupleType :: "Type list \<Rightarrow> Type"
  destTupleType :: "Type \<Rightarrow> Type list"
  functionType :: "Type \<Rightarrow> Type \<Rightarrow> Type"
  destFunctionType :: "Type \<Rightarrow> (Type \<times> Type) option"
  typeFunctionType :: "Type \<Rightarrow> Type \<Rightarrow> Type"
  destTypeFunctionType :: "Type \<Rightarrow> (Type \<times> Type) option"

type_synonym ('a, 'e) walk =
  "'e TypeInference \<Rightarrow> (Exception \<times> 'e TypeInference) + ('a \<times> 'e TypeInference)"

text \<open>
  The analyzer of inline assembly (libyul/AsmAnalysis.cpp) is not part of the file either:
  \<open>asmAnalyze\<close> stands for the construction of the analyzer on the node's analysis info,
  the error reporter and the resolver it is given, followed by its run over the operations
  of the node.
\<close>

type_synonym 'e resolver = "YulIdentifier \<Rightarrow> IdentifierContext \<Rightarrow> bool \<Rightarrow> (bool, 'e) walk"

record 'e Analysis =
  ast :: "NodeId \<Rightarrow> ASTNode"
  registration :: Registration
  typeSystemOps :: "'e TypeSystemOps"
  helper :: TypeSystemHelpers
  bigintOfString :: bigintParser
  precisionBaseX :: precisionCheck
  asmAnalyze :: "NodeId \<Rightarrow> 'e resolver \<Rightarrow> (bool, 'e) walk"

definition m_voidType :: "'e Analysis \<Rightarrow> Type" where
  "m_voidType A = typeSystem_type (primitiveConstructor (typeSystemOps A) Void) []"


definition m_integerType :: "'e Analysis \<Rightarrow> Type" where
  "m_integerType A = typeSystem_type (primitiveConstructor (typeSystemOps A) Integer) []"


definition m_boolType :: "'e Analysis \<Rightarrow> Type" where
  "m_boolType A = typeSystem_type (primitiveConstructor (typeSystemOps A) Bool) []"

section \<open>Control flow of the walker\<close>

definition returnM :: "'a \<Rightarrow> ('a, 'e) walk" where
  "returnM x = (\<lambda>s. Inr (x, s))"

definition throwM :: "Exception \<Rightarrow> ('a, 'e) walk" where
  "throwM x = (\<lambda>s. Inl (x, s))"

definition bindM :: "('a, 'e) walk \<Rightarrow> ('a \<Rightarrow> ('b, 'e) walk) \<Rightarrow> ('b, 'e) walk" where
  "bindM m f = (\<lambda>s. case m s of Inl x \<Rightarrow> Inl x | Inr (a, s') \<Rightarrow> f a s')"

definition thenM :: "('a, 'e) walk \<Rightarrow> ('b, 'e) walk \<Rightarrow> ('b, 'e) walk" where
  "thenM m n = bindM m (\<lambda>_. n)"

definition getM :: "('e TypeInference \<Rightarrow> 'a) \<Rightarrow> ('a, 'e) walk" where
  "getM f = (\<lambda>s. Inr (f s, s))"

definition modifyM :: "('e TypeInference \<Rightarrow> 'e TypeInference) \<Rightarrow> (unit, 'e) walk" where
  "modifyM f = (\<lambda>s. Inr ((), f s))"

definition solAssert :: "bool \<Rightarrow> (unit, 'e) walk" where
  "solAssert b = (if b then returnM () else throwM InternalCompilerError)"

fun forEachM :: "'a list \<Rightarrow> ('a \<Rightarrow> (unit, 'e) walk) \<Rightarrow> (unit, 'e) walk" where
  "forEachM [] f = returnM ()"
| "forEachM (x # xs) f = thenM (f x) (forEachM xs f)"

fun mapM :: "('a \<Rightarrow> ('b, 'e) walk) \<Rightarrow> 'a list \<Rightarrow> ('b list, 'e) walk" where
  "mapM f [] = returnM []"
| "mapM f (x # xs) = bindM (f x) (\<lambda>y. bindM (mapM f xs) (\<lambda>ys. returnM (y # ys)))"

text \<open>Calls into the type system: one that may change it, and one that only reads it.\<close>

definition callTS :: "('e TypeSystem \<Rightarrow> 'a \<times> 'e TypeSystem) \<Rightarrow> ('a, 'e) walk" where
  "callTS f = (\<lambda>s. case f (m_typeSystem s) of (a, ts) \<Rightarrow> Inr (a, s\<lparr>m_typeSystem := ts\<rparr>))"

definition readTS :: "('e TypeSystem \<Rightarrow> 'a) \<Rightarrow> ('a, 'e) walk" where
  "readTS f = (\<lambda>s. Inr (f (m_typeSystem s), s))"

text \<open>
  \<^verbatim>\<open>ScopedSaveAndRestore\<close>: the field gets a new value for the extent of a block and its old
  value back when the block is left, by a return or by an exception.
\<close>

definition scopedExpressionContext ::
  "ExpressionContext \<Rightarrow> ('a, 'e) walk \<Rightarrow> ('a, 'e) walk" where
  "scopedExpressionContext c m =
     (\<lambda>s. case m (s\<lparr>m_expressionContext := c\<rparr>) of
             Inl (x, s') \<Rightarrow> Inl (x, s'\<lparr>m_expressionContext := m_expressionContext s\<rparr>)
           | Inr (a, s') \<Rightarrow> Inr (a, s'\<lparr>m_expressionContext := m_expressionContext s\<rparr>))"

definition scopedCurrentFunctionType :: "Type option \<Rightarrow> ('a, 'e) walk \<Rightarrow> ('a, 'e) walk" where
  "scopedCurrentFunctionType t m =
     (\<lambda>s. case m (s\<lparr>m_currentFunctionType := t\<rparr>) of
             Inl (x, s') \<Rightarrow> Inl (x, s'\<lparr>m_currentFunctionType := m_currentFunctionType s\<rparr>)
           | Inr (a, s') \<Rightarrow> Inr (a, s'\<lparr>m_currentFunctionType := m_currentFunctionType s\<rparr>))"

definition scopedActiveInstantiations ::
  "('e TypeInference \<Rightarrow> NodeId set) \<Rightarrow> ('a, 'e) walk \<Rightarrow> ('a, 'e) walk" where
  "scopedActiveInstantiations f m =
     (\<lambda>s. case m (s\<lparr>m_activeInstantiations := f s\<rparr>) of
             Inl (x, s') \<Rightarrow> Inl (x, s'\<lparr>m_activeInstantiations := m_activeInstantiations s\<rparr>)
           | Inr (a, s') \<Rightarrow> Inr (a, s'\<lparr>m_activeInstantiations := m_activeInstantiations s\<rparr>))"

section \<open>Diagnostics and annotations\<close>

definition typeError :: "SourceLocation \<Rightarrow> string \<Rightarrow> (unit, 'e) walk" where
  "typeError loc msg =
     modifyM (\<lambda>s. s\<lparr>m_errorReporter :=
       m_errorReporter s @ [\<lparr>location = loc, secondary = {}, message = msg\<rparr>]\<rparr>)"

definition typeErrorSecondary ::
  "SourceLocation \<Rightarrow> (string \<times> SourceLocation) set \<Rightarrow> string \<Rightarrow> (unit, 'e) walk" where
  "typeErrorSecondary loc ssl msg =
     modifyM (\<lambda>s. s\<lparr>m_errorReporter :=
       m_errorReporter s @ [\<lparr>location = loc, secondary = ssl, message = msg\<rparr>]\<rparr>)"

definition fatalTypeErrorSecondary ::
  "SourceLocation \<Rightarrow> (string \<times> SourceLocation) set \<Rightarrow> string \<Rightarrow> ('a, 'e) walk" where
  "fatalTypeErrorSecondary loc ssl msg =
     (\<lambda>s. Inl (FatalError, s\<lparr>m_errorReporter :=
       m_errorReporter s @ [\<lparr>location = loc, secondary = ssl, message = msg\<rparr>]\<rparr>))"

definition fatalTypeError :: "SourceLocation \<Rightarrow> string \<Rightarrow> ('a, 'e) walk" where
  "fatalTypeError loc msg = fatalTypeErrorSecondary loc {} msg"

definition annotationType :: "NodeId \<Rightarrow> (Type option, 'e) walk" where
  "annotationType node = getM (\<lambda>s. type (nodeAnnotation s node))"

definition setAnnotationType :: "NodeId \<Rightarrow> Type \<Rightarrow> (unit, 'e) walk" where
  "setAnnotationType node t =
     modifyM (\<lambda>s. s\<lparr>nodeAnnotation :=
       (nodeAnnotation s)(node := (nodeAnnotation s node)\<lparr>type := Some t\<rparr>)\<rparr>)"

definition getType :: "NodeId \<Rightarrow> (Type, 'e) walk" where
  "getType node =
     bindM (annotationType node)
       (\<lambda>result. case result of
                    None \<Rightarrow> throwM InternalCompilerError
                  | Some t \<Rightarrow> returnM t)"

definition typeConstructor :: "'e Analysis \<Rightarrow> NodeId \<Rightarrow> (TypeConstructor, 'e) walk" where
  "typeConstructor A node =
     (case typeConstructorOf (registration A) node of
        Some constructor \<Rightarrow> returnM constructor
      | None \<Rightarrow> fatalTypeError (LocationOf node) ''Unregistered type.'')"

definition typeOfDeclaration :: "'e Analysis \<Rightarrow> NodeId \<Rightarrow> Type list \<Rightarrow> (Type, 'e) walk" where
  "typeOfDeclaration A node arguments =
     bindM (typeConstructor A node)
       (\<lambda>constructor. returnM (typeSystem_type constructor arguments))"

definition visitNode :: "NodeId \<Rightarrow> (bool, 'e) walk" where
  "visitNode node =
     fatalTypeError (LocationOf node) ''Unsupported AST node during type inference.''"

definition freshVar :: "Sort \<Rightarrow> (Type, 'e) walk" where
  "freshVar srt = callTS (freshTypeVariable srt)"

section \<open>Unification with on-demand instantiation\<close>

definition typeClassInstantiations ::
  "'e Analysis \<Rightarrow> TypeClass \<Rightarrow> ((TypeConstructor \<times> NodeId) list, 'e) walk" where
  "typeClassInstantiations A cls =
     bindM (readTS (typeClassDeclaration (typeSystemOps A) cls))
       (\<lambda>typeClassDeclaration.
          case typeClassDeclaration of
            Some declaration \<Rightarrow> returnM (instantiationsOf (registration A) declaration)
          | None \<Rightarrow>
              bindM (readTS (typeClassName (typeSystemOps A) cls))
                (\<lambda>name.
                   case builtinClassesByName (registration A) name of
                     None \<Rightarrow> throwM OutOfRange
                   | Some builtin \<Rightarrow>
                       (case builtinClassInstantiations (registration A) builtin of
                          None \<Rightarrow> throwM OutOfRange
                        | Some instantiations \<Rightarrow> returnM instantiations)))"

text \<open>
  The local variables of \<^verbatim>\<open>unify\<close> that the lambda \<^verbatim>\<open>onlyMissingInstantiations\<close> writes.
\<close>

record Scan =
  missingInstantiations :: "NodeId list"
  recursion :: bool

text \<open>
  The inner loop of the lambda, over the classes of the sort of one sort mismatch. The
  first component of the result says whether the loop ran to its end (\<^verbatim>\<open>continue\<close>);
  otherwise the lambda returns \<^verbatim>\<open>false\<close>.
\<close>

fun classesLoop ::
  "'e Analysis \<Rightarrow> SourceLocation \<Rightarrow> TypeConstructor \<Rightarrow> TypeClass list \<Rightarrow> Scan
     \<Rightarrow> (bool \<times> Scan, 'e) walk" where
  "classesLoop A loc constructor [] scan = returnM (True, scan)"
| "classesLoop A loc constructor (cls # classes) scan =
     bindM (typeClassInstantiations A cls)
       (\<lambda>instantiations.
          case map_of instantiations constructor of
            Some instantiation \<Rightarrow>
              bindM (getM m_activeInstantiations)
                (\<lambda>active.
                   if instantiation \<in> active then
                     thenM (typeErrorSecondary loc
                              ((\<lambda>activeInstantiation.
                                  (''Involved instantiation'', LocationOf activeInstantiation))
                               ` active)
                              ''Recursion during type class instantiation.'')
                       (returnM (False, scan\<lparr>recursion := True\<rparr>))
                   else classesLoop A loc constructor classes
                          (scan\<lparr>missingInstantiations :=
                             missingInstantiations scan @ [instantiation]\<rparr>))
          | None \<Rightarrow> returnM (False, scan))"

text \<open>The outer loop of the lambda, over the failures; its first component is the result.\<close>

fun failuresLoop ::
  "'e Analysis \<Rightarrow> SourceLocation \<Rightarrow> UnificationFailure list \<Rightarrow> Scan
     \<Rightarrow> (bool \<times> Scan, 'e) walk" where
  "failuresLoop A loc [] scan = returnM (True, scan)"
| "failuresLoop A loc (failure # failures) scan =
     (case failure of
        SortMismatch t srt \<Rightarrow>
          if isTypeConstant t then
            (case destTypeConstant t of
               None \<Rightarrow> throwM InternalCompilerError
             | Some (constructor, arguments) \<Rightarrow>
                 bindM (classesLoop A loc constructor srt scan)
                   (\<lambda>(continue, scan').
                      if continue then failuresLoop A loc failures scan'
                      else returnM (False, scan')))
          else returnM (False, scan)
      | TypeMismatch a b \<Rightarrow> returnM (False, scan)
      | RecursiveUnification v t \<Rightarrow> returnM (False, scan))"

definition failureMessage :: "'e Analysis \<Rightarrow> UnificationFailure \<Rightarrow> 'e TypeSystem \<Rightarrow> string" where
  "failureMessage A failure ts =
     (case failure of
        TypeMismatch a b \<Rightarrow>
          ''Cannot unify '' @ typeToString (typeSystemOps A) a ts @ '' and ''
            @ typeToString (typeSystemOps A) b ts @ ''.''
      | SortMismatch t srt \<Rightarrow>
          typeToString (typeSystemOps A) t ts @ '' does not have sort ''
            @ sortToString (typeSystemOps A) srt
      | RecursiveUnification v t \<Rightarrow>
          ''Recursive unification: '' @ typeToString (typeSystemOps A) v ts @ '' occurs in ''
            @ typeToString (typeSystemOps A) t ts @ ''.'')"

definition reportFailures ::
  "'e Analysis \<Rightarrow> SourceLocation \<Rightarrow> UnificationFailure list \<Rightarrow> (unit, 'e) walk" where
  "reportFailures A loc unificationFailures =
     forEachM unificationFailures
       (\<lambda>failure. bindM (readTS (failureMessage A failure)) (typeError loc))"

text \<open>
  \<^verbatim>\<open>TypeInference::unify\<close>. Every call in the file leaves the parameter \<^verbatim>\<open>_env\<close> at its
  default, so the environment is the one of the type system. \<open>accept\<close> is the dispatch of
  the syntax tree (\<^verbatim>\<open>node->accept(*this)\<close>), which is not part of the file.
\<close>

definition unify ::
  "'e Analysis \<Rightarrow> (NodeId \<Rightarrow> (unit, 'e) walk) \<Rightarrow> Type \<Rightarrow> Type \<Rightarrow> SourceLocation
     \<Rightarrow> (unit, 'e) walk" where
  "unify A accept a b loc =
     bindM (callTS (env_unify (typeSystemOps A) a b))
       (\<lambda>unificationFailures.
          bindM (getM m_activeInstantiations)
            (\<lambda>active.
               if active \<noteq> {} then
                 bindM (failuresLoop A loc unificationFailures
                          \<lparr>missingInstantiations = [], recursion = False\<rparr>)
                   (\<lambda>(onlyMissingInstantiations, scan).
                      if recursion scan then returnM ()
                      else if onlyMissingInstantiations then
                        thenM (forEachM (missingInstantiations scan) accept)
                          (bindM (callTS (env_unify (typeSystemOps A) a b))
                             (reportFailures A loc))
                      else reportFailures A loc unificationFailures)
               else reportFailures A loc unificationFailures))"

section \<open>The entry point\<close>

definition analyze :: "(NodeId \<Rightarrow> (unit, 'e) walk) \<Rightarrow> NodeId \<Rightarrow> (bool, 'e) walk" where
  "analyze accept sourceUnit =
     thenM (accept sourceUnit) (getM (\<lambda>s. \<not> hasErrors (m_errorReporter s)))"

section \<open>Literals\<close>

definition visit_Literal :: "'e Analysis \<Rightarrow> NodeId \<Rightarrow> Literal \<Rightarrow> (bool, 'e) walk" where
  "visit_Literal A self literal =
     (if token literal \<noteq> Number then
        thenM (typeError (LocationOf self) ''Only number literals are supported.'')
          (returnM False)
      else
        (case rationalValue (bigintOfString A) (precisionBaseX A) literal of
           None \<Rightarrow>
             thenM (typeError (LocationOf self) ''Invalid number literals.'') (returnM False)
         | Some v \<Rightarrow>
             if denominator v \<noteq> 1 then
               thenM (typeError (LocationOf self) ''Only integers are supported.'')
                 (returnM False)
             else
               (case builtinClasses (registration A) IntegerClass of
                  None \<Rightarrow> throwM OutOfRange
                | Some integerClass \<Rightarrow>
                    bindM (freshVar [integerClass])
                      (\<lambda>t. thenM (setAnnotationType self t) (returnM False)))))"

section \<open>Member access and type definitions\<close>

definition visit_MemberAccess :: "NodeId \<Rightarrow> (bool, 'e) walk" where
  "visit_MemberAccess self =
     bindM (getM m_expressionContext)
       (\<lambda>c. if c \<noteq> Term then
               thenM (typeError (LocationOf self) ''Member access outside term context.'')
                 (bindM (freshVar [])
                    (\<lambda>t. thenM (setAnnotationType self t) (returnM False)))
             else returnM True)"

definition endVisit_MemberAccess ::
  "'e Analysis \<Rightarrow> NodeId \<Rightarrow> NodeId \<Rightarrow> string \<Rightarrow> (unit, 'e) walk" where
  "endVisit_MemberAccess A self expression memberName =
     bindM (annotationType self)
       (\<lambda>present.
          thenM (solAssert (present = None))
            (bindM (getType expression)
               (\<lambda>expressionType.
                  if isTypeConstant expressionType then
                    (case destTypeConstant expressionType of
                       None \<Rightarrow> throwM InternalCompilerError
                     | Some (constructor, arguments) \<Rightarrow>
                         bindM (getM (\<lambda>s. members (globalAnnotation s) constructor))
                           (\<lambda>entry.
                              case entry of
                                None \<Rightarrow> throwM OutOfRange
                              | Some typeMembers \<Rightarrow>
                                  (case typeMembers memberName of
                                     Some typeMember \<Rightarrow>
                                       bindM (callTS (env_fresh (typeSystemOps A)
                                                        (memberType typeMember)))
                                         (setAnnotationType self)
                                   | None \<Rightarrow>
                                       thenM (typeError (MemberLocationOf self)
                                                ''Member not found.'')
                                         (bindM (freshVar []) (setAnnotationType self)))))
                  else
                    thenM (typeError (LocationOf expression)
                             ''Unsupported member access expression.'')
                      (bindM (freshVar []) (setAnnotationType self)))))"

definition setMembers ::
  "TypeConstructor \<Rightarrow> (string \<rightharpoonup> TypeMember) \<Rightarrow> (unit, 'e) walk" where
  "setMembers constructor typeMembers =
     modifyM (\<lambda>s. s\<lparr>globalAnnotation :=
       (globalAnnotation s)\<lparr>members :=
         (members (globalAnnotation s))(constructor \<mapsto> typeMembers)\<rparr>\<rparr>)"

definition visit_TypeDefinition ::
  "'e Analysis \<Rightarrow> (NodeId \<Rightarrow> (unit, 'e) walk) \<Rightarrow> NodeId \<Rightarrow> NodeId option \<Rightarrow> NodeId option
     \<Rightarrow> (bool, 'e) walk" where
  "visit_TypeDefinition A accept self arguments typeExpression =
     bindM (annotationType self)
       (\<lambda>present.
          if present \<noteq> None then returnM False
          else
            thenM (case arguments of Some list \<Rightarrow> accept list | None \<Rightarrow> returnM ())
           (bindM (case typeExpression of
                     Some expression \<Rightarrow>
                       scopedExpressionContext Type
                         (thenM (accept expression) (annotationType expression))
                   | None \<Rightarrow> returnM None)
           (\<lambda>underlyingType.
            bindM (case arguments of
                     Some list \<Rightarrow> mapM (\<lambda>parameter. freshVar []) (parametersOf (ast A list))
                   | None \<Rightarrow> returnM [])
           (\<lambda>typeArguments.
            bindM (typeOfDeclaration A self typeArguments)
           (\<lambda>definedType.
            thenM (setAnnotationType self
                     (if typeArguments = [] then definedType
                      else typeFunctionType (helper A)
                             (tupleType (helper A) typeArguments) definedType))
           (bindM (typeConstructor A self)
           (\<lambda>constructor.
            bindM (getM (\<lambda>s. members (globalAnnotation s) constructor))
           (\<lambda>entry.
            thenM (solAssert (entry = None))
           (thenM (setMembers constructor
                     (case underlyingType of
                        None \<Rightarrow> Map.empty
                      | Some underlying \<Rightarrow>
                          [''abs'' \<mapsto>
                             \<lparr>memberType = functionType (helper A) underlying definedType\<rparr>,
                           ''rep'' \<mapsto>
                             \<lparr>memberType = functionType (helper A) definedType underlying\<rparr>]))
              (returnM False))))))))))"

section \<open>Functions, parameter lists and returns\<close>

definition assertContext :: "ExpressionContext \<Rightarrow> (unit, 'e) walk" where
  "assertContext c = bindM (getM m_expressionContext) (\<lambda>current. solAssert (current = c))"



definition endVisit_ParameterList ::
  "'e Analysis \<Rightarrow> NodeId \<Rightarrow> NodeId list \<Rightarrow> (unit, 'e) walk" where
  "endVisit_ParameterList A self parameters =
     bindM (annotationType self)
       (\<lambda>present.
          thenM (solAssert (present = None))
            (bindM (mapM getType parameters)
               (\<lambda>types. setAnnotationType self (tupleType (helper A) types))))"

section \<open>Type classes\<close>

text \<open>
  The loop of \<^verbatim>\<open>visit(TypeClassDefinition)\<close> over the sub-nodes. \<^verbatim>\<open>typeMembers\<close> refers to
  the entry of the class's constructor in the members table, which \<^verbatim>\<open>operator[]\<close> has
  made before the loop and which nothing removes.
\<close>

fun classFunctions ::
  "'e Analysis \<Rightarrow> (NodeId \<Rightarrow> (unit, 'e) walk) \<Rightarrow> Type \<Rightarrow> TypeConstructor \<Rightarrow> NodeId list
     \<Rightarrow> (string \<rightharpoonup> Type) \<Rightarrow> (string \<rightharpoonup> Type, 'e) walk" where
  "classFunctions A accept typeVar constructor [] functionTypes = returnM functionTypes"
| "classFunctions A accept typeVar constructor (subNode # subNodes) functionTypes =
     thenM (accept subNode)
    (thenM (solAssert (isFunctionDefinition (ast A subNode)))
    (bindM (getType subNode)
    (\<lambda>declared.
     bindM (callTS (env_fresh (typeSystemOps A) declared))
    (\<lambda>functionType.
     bindM (readTS (typeVars (typeSystemOps A) functionType))
    (\<lambda>vars.
     thenM (if length vars \<noteq> 1 then
              fatalTypeError (LocationOf subNode)
                ''Function in type class may only depend on the type class variable.''
            else returnM ())
    (thenM (unify A accept (hd vars) typeVar (LocationOf subNode))
    (bindM (getM (\<lambda>s. case members (globalAnnotation s) constructor of
                          None \<Rightarrow> Map.empty
                        | Some typeMembers \<Rightarrow> typeMembers))
    (\<lambda>typeMembers.
     if typeMembers (functionName (ast A subNode)) = None then
       thenM (setMembers constructor
                (typeMembers(functionName (ast A subNode) \<mapsto> \<lparr>memberType = functionType\<rparr>)))
         (classFunctions A accept typeVar constructor subNodes
            (functionTypes(functionName (ast A subNode) \<mapsto> functionType)))
     else
       fatalTypeError (LocationOf subNode)
         ''Function in type class declared multiple times.''))))))))"

definition visit_TypeClassDefinition ::
  "'e Analysis \<Rightarrow> (NodeId \<Rightarrow> (unit, 'e) walk) \<Rightarrow> NodeId \<Rightarrow> string \<Rightarrow> NodeId \<Rightarrow> NodeId list
     \<Rightarrow> (bool, 'e) walk" where
  "visit_TypeClassDefinition A accept self name typeVariable subNodes =
     thenM (assertContext Term)
    (bindM (annotationType self)
    (\<lambda>present.
       if present \<noteq> None then returnM False
       else
         bindM (typeOfDeclaration A self [])
        (\<lambda>classType.
         thenM (setAnnotationType self classType)
        (thenM (scopedExpressionContext Type (accept typeVariable))
        (bindM (freshVar [])
        (\<lambda>typeVar.
         bindM (typeConstructor A self)
        (\<lambda>constructor.
         thenM (modifyM (\<lambda>s. case members (globalAnnotation s) constructor of
                                None \<Rightarrow>
                                  s\<lparr>globalAnnotation :=
                                    (globalAnnotation s)\<lparr>members :=
                                      (members (globalAnnotation s))
                                        (constructor \<mapsto> Map.empty)\<rparr>\<rparr>
                              | Some typeMembers \<Rightarrow> s))
        (bindM (classFunctions A accept typeVar constructor subNodes Map.empty)
        (\<lambda>functionTypes.
         bindM (callTS (declareTypeClass (typeSystemOps A) typeVar functionTypes name self))
        (\<lambda>declared.
           case declared of
             Inl error \<Rightarrow> fatalTypeError (LocationOf self) error
           | Inr cls \<Rightarrow>
               bindM (getType typeVariable)
              (\<lambda>variableType.
               bindM (freshVar [cls])
              (\<lambda>classVariable.
               thenM (unify A accept variableType classVariable (LocationOf self))
              (thenM (forEachM (map snd (instantiationsOf (registration A) self)) accept)
                 (returnM False))))))))))))))"

definition referencedDeclaration :: "ASTNode \<Rightarrow> NodeId option" where
  "referencedDeclaration n =
     (case n of Identifier d \<Rightarrow> d | IdentifierPath d \<Rightarrow> d | _ \<Rightarrow> None)"

text \<open>The loop of \<^verbatim>\<open>visit(TypeClassInstantiation)\<close> over the sub-nodes.\<close>

fun instantiationFunctions ::
  "'e Analysis \<Rightarrow> (NodeId \<Rightarrow> (unit, 'e) walk) \<Rightarrow> NodeId list \<Rightarrow> (string \<rightharpoonup> Type)
     \<Rightarrow> (string \<rightharpoonup> Type, 'e) walk" where
  "instantiationFunctions A accept [] functionTypes = returnM functionTypes"
| "instantiationFunctions A accept (subNode # subNodes) functionTypes =
     thenM (solAssert (isFunctionDefinition (ast A subNode)))
    (thenM (accept subNode)
    (bindM (getType subNode)
    (\<lambda>t.
       if functionTypes (functionName (ast A subNode)) = None then
         instantiationFunctions A accept subNodes
           (functionTypes(functionName (ast A subNode) \<mapsto> t))
       else
         thenM (typeError (LocationOf subNode)
                  (''Duplicate definition of function '' @ functionName (ast A subNode)
                   @ '' during type class instantiation.''))
           (instantiationFunctions A accept subNodes functionTypes))))"

text \<open>The class that the name of an instantiation refers to (the \<^verbatim>\<open>std::visit\<close>).\<close>

definition instantiationClass ::
  "'e Analysis \<Rightarrow> (NodeId \<Rightarrow> (unit, 'e) walk) \<Rightarrow> NodeId \<Rightarrow> NodeId \<Rightarrow> TypeClassName
     \<Rightarrow> (TypeClass option, 'e) walk" where
  "instantiationClass A accept self typeClassNode className =
     (case className of
        ClassPath path \<Rightarrow>
          (case referencedDeclaration (ast A path) of
             Some declaration \<Rightarrow>
               if isTypeClassDefinition (ast A declaration) then
                 thenM (accept declaration)
                   (getM (\<lambda>s. typeClass (nodeAnnotation s declaration)))
               else
                 thenM (typeError (LocationOf typeClassNode) ''Expected type class.'')
                   (returnM None)
           | None \<Rightarrow>
               thenM (typeError (LocationOf typeClassNode) ''Expected type class.'')
                 (returnM None))
      | ClassToken tok \<Rightarrow>
          (case builtinClassFromToken (registration A) tok of
             Some builtinClass \<Rightarrow>
               (case builtinClasses (registration A) builtinClass of
                  Some cls \<Rightarrow> returnM (Some cls)
                | None \<Rightarrow>
                    thenM (typeError (LocationOf self) ''Invalid type class name.'')
                      (returnM None))
           | None \<Rightarrow>
               thenM (typeError (LocationOf self) ''Invalid type class name.'')
                 (returnM None)))"

definition visit_TypeClassInstantiation ::
  "'e Analysis \<Rightarrow> (NodeId \<Rightarrow> (unit, 'e) walk) \<Rightarrow> NodeId \<Rightarrow> NodeId \<Rightarrow> TypeClassName \<Rightarrow> NodeId
     \<Rightarrow> NodeId option \<Rightarrow> NodeId list \<Rightarrow> (bool, 'e) walk" where
  "visit_TypeClassInstantiation A accept self typeClassNode className typeConstructorNode
       argumentSortsNode subNodes =
     scopedActiveInstantiations (\<lambda>s. m_activeInstantiations s \<union> {self})
    (bindM (annotationType self)
    (\<lambda>present.
       if present \<noteq> None then returnM False
       else
         thenM (setAnnotationType self (m_voidType A))
        (bindM (instantiationClass A accept self typeClassNode className)
        (\<lambda>resolved.
           case resolved of
             None \<Rightarrow> returnM False
           | Some cls \<Rightarrow>
               (case typeConstructorOf (registration A) typeConstructorNode of
                  None \<Rightarrow>
                    thenM (typeError (LocationOf typeConstructorNode)
                             ''Invalid type constructor.'')
                      (returnM False)
                | Some constructor \<Rightarrow>
                    bindM (scopedExpressionContext Type
                             (case argumentSortsNode of
                                None \<Rightarrow> returnM ([], [])
                              | Some list \<Rightarrow>
                                  thenM (accept list)
                                 (bindM (getType list)
                                 (\<lambda>listType.
                                  bindM (readTS (\<lambda>ts. map (\<lambda>t. env_sort (typeSystemOps A) t ts)
                                                        (destTupleType (helper A) listType)))
                                 (\<lambda>sorts.
                                  returnM (destTupleType (helper A) listType, sorts))))))
                   (\<lambda>(arguments, sorts).
                    bindM (instantiationFunctions A accept subNodes Map.empty)
                   (\<lambda>functionTypes.
                    bindM (callTS (instantiateClass (typeSystemOps A)
                                     (TypeConstant constructor arguments)
                                     \<lparr>argumentSorts = sorts, arityClass = cls\<rparr>
                                     functionTypes))
                   (\<lambda>error.
                    thenM (case error of
                             Some text \<Rightarrow> typeError (LocationOf self) text
                           | None \<Rightarrow> returnM ())
                      (returnM False)))))))))"

section \<open>Expressions, declarations and statements\<close>

definition visit_ElementaryTypeNameExpression ::
  "'e Analysis \<Rightarrow> NodeId \<Rightarrow> (bool, 'e) walk" where
  "visit_ElementaryTypeNameExpression A self =
     bindM (annotationType self)
    (\<lambda>present.
     thenM (solAssert (present = None))
    (bindM (getM m_expressionContext)
    (\<lambda>c.
       if c \<noteq> Type then
         thenM (typeError (LocationOf self)
                  ''Elementary type name expression only supported in type context.'')
        (bindM (freshVar []) (\<lambda>t. thenM (setAnnotationType self t) (returnM False)))
       else
         (case typeConstructorOf (registration A) self of
            Some constructor \<Rightarrow>
              bindM (readTS (constructorArguments (typeSystemOps A) constructor))
             (\<lambda>n.
              bindM (mapM (\<lambda>i. freshVar []) [0..<n])
             (\<lambda>arguments.
              thenM (setAnnotationType self
                       (if arguments = [] then typeSystem_type constructor arguments
                        else typeFunctionType (helper A) (tupleType (helper A) arguments)
                               (typeSystem_type constructor arguments)))
                (returnM False)))
          | None \<Rightarrow>
              thenM (typeError (LocationOf self)
                       ''No type constructor registered for elementary type name.'')
             (bindM (freshVar []) (\<lambda>t. thenM (setAnnotationType self t) (returnM False)))))))"

definition visit_BinaryOperation ::
  "'e Analysis \<Rightarrow> (NodeId \<Rightarrow> (unit, 'e) walk) \<Rightarrow> NodeId \<Rightarrow> Token \<Rightarrow> NodeId \<Rightarrow> NodeId
     \<Rightarrow> (bool, 'e) walk" where
  "visit_BinaryOperation A accept self operator leftExpression rightExpression =
     bindM (annotationType self)
    (\<lambda>present.
     thenM (solAssert (present = None))
    (bindM (getM m_expressionContext)
    (\<lambda>c.
       case c of
         Term \<Rightarrow>
           (case operators (registration A) operator of
              Some (cls, method) \<Rightarrow>
                bindM (readTS (env_typeClassFunction (typeSystemOps A) cls method))
               (\<lambda>found.
                  case found of
                    None \<Rightarrow> throwM InternalCompilerError
                  | Some classFunctionType \<Rightarrow>
                      thenM (accept leftExpression)
                     (thenM (accept rightExpression)
                     (bindM (getType leftExpression)
                     (\<lambda>leftType.
                      bindM (getType rightExpression)
                     (\<lambda>rightType.
                      bindM (freshVar [])
                     (\<lambda>result.
                      thenM (unify A accept classFunctionType
                               (functionType (helper A)
                                  (tupleType (helper A) [leftType, rightType]) result)
                               (LocationOf self))
                     (bindM (readTS (env_resolve (typeSystemOps A)
                               (functionType (helper A)
                                  (tupleType (helper A) [leftType, rightType]) result)))
                     (\<lambda>resolved.
                        case destFunctionType (helper A) resolved of
                          None \<Rightarrow> throwM InternalCompilerError
                        | Some (argumentType, resultType) \<Rightarrow>
                            bindM (readTS (env_resolve (typeSystemOps A) resultType))
                           (\<lambda>t. thenM (setAnnotationType self t) (returnM False))))))))))
            | None \<Rightarrow>
                thenM (typeError (LocationOf self)
                         ''Binary operation in term context not yet supported.'')
               (bindM (freshVar []) (\<lambda>t. thenM (setAnnotationType self t) (returnM False))))
       | Type \<Rightarrow>
           if operator = Colon then
             thenM (accept leftExpression)
            (thenM (scopedExpressionContext Sort (accept rightExpression))
            (bindM (getType leftExpression)
            (\<lambda>leftType.
             bindM (getType rightExpression)
            (\<lambda>rightType.
             thenM (unify A accept leftType rightType (LocationOf self))
            (thenM (setAnnotationType self leftType) (returnM False))))))
           else if operator = RightArrow then
             thenM (accept leftExpression)
            (thenM (accept rightExpression)
            (bindM (getType leftExpression)
            (\<lambda>leftType.
             bindM (getType rightExpression)
            (\<lambda>rightType.
             thenM (setAnnotationType self (functionType (helper A) leftType rightType))
               (returnM False)))))
           else
             thenM (typeError (LocationOf self) ''Invalid binary operations in type context.'')
            (bindM (freshVar []) (\<lambda>t. thenM (setAnnotationType self t) (returnM False)))
       | Sort \<Rightarrow>
           thenM (typeError (LocationOf self) ''Invalid binary operation in sort context.'')
          (bindM (freshVar []) (\<lambda>t. thenM (setAnnotationType self t) (returnM False))))))"

definition endVisit_VariableDeclarationStatement ::
  "'e Analysis \<Rightarrow> (NodeId \<Rightarrow> (unit, 'e) walk) \<Rightarrow> NodeId \<Rightarrow> NodeId list \<Rightarrow> NodeId option
     \<Rightarrow> (unit, 'e) walk" where
  "endVisit_VariableDeclarationStatement A accept self declarations initialValue =
     thenM (assertContext Term)
       (if length declarations \<noteq> 1 then
          typeError (LocationOf self) ''Multi variable declaration not supported.''
        else
          bindM (getType (hd declarations))
            (\<lambda>variableType.
               case initialValue of
                 Some v \<Rightarrow>
                   bindM (getType v)
                     (\<lambda>t. unify A accept variableType t (LocationOf self))
               | None \<Rightarrow> returnM ()))"

definition visit_VariableDeclaration ::
  "'e Analysis \<Rightarrow> (NodeId \<Rightarrow> (unit, 'e) walk) \<Rightarrow> NodeId \<Rightarrow> NodeId option \<Rightarrow> NodeId option
     \<Rightarrow> (bool, 'e) walk" where
  "visit_VariableDeclaration A accept self val typeExpression =
     thenM (solAssert (val = None))
    (bindM (annotationType self)
    (\<lambda>present.
     thenM (solAssert (present = None))
    (bindM (getM m_expressionContext)
    (\<lambda>c.
       case c of
         Term \<Rightarrow>
           (case typeExpression of
              Some expression \<Rightarrow>
                scopedExpressionContext Type
                  (thenM (accept expression)
                  (bindM (getType expression)
                  (\<lambda>t. thenM (setAnnotationType self t) (returnM False))))
            | None \<Rightarrow>
                bindM (freshVar []) (\<lambda>t. thenM (setAnnotationType self t) (returnM False)))
       | Type \<Rightarrow>
           bindM (freshVar [])
          (\<lambda>t.
           thenM (setAnnotationType self t)
          (thenM (case typeExpression of
                    Some expression \<Rightarrow>
                      scopedExpressionContext Sort
                        (thenM (accept expression)
                        (bindM (getType self)
                        (\<lambda>variableType.
                         bindM (getType expression)
                        (\<lambda>expressionType.
                         unify A accept variableType expressionType
                           (LocationOf expression)))))
                  | None \<Rightarrow> returnM ())
             (returnM False)))
       | Sort \<Rightarrow>
           thenM (typeError (LocationOf self) ''Variable declaration in sort context.'')
          (bindM (freshVar []) (\<lambda>t. thenM (setAnnotationType self t) (returnM False)))))))"

definition endVisit_Assignment ::
  "'e Analysis \<Rightarrow> (NodeId \<Rightarrow> (unit, 'e) walk) \<Rightarrow> NodeId \<Rightarrow> NodeId \<Rightarrow> NodeId \<Rightarrow> (unit, 'e) walk" where
  "endVisit_Assignment A accept self leftHandSide rightHandSide =
     bindM (annotationType self)
    (\<lambda>present.
     thenM (solAssert (present = None))
    (bindM (getM m_expressionContext)
    (\<lambda>c.
       if c \<noteq> Term then
         thenM (typeError (LocationOf self) ''Assignment outside term context.'')
           (bindM (freshVar []) (setAnnotationType self))
       else
         bindM (getType leftHandSide)
        (\<lambda>leftType.
         bindM (getType rightHandSide)
        (\<lambda>rightType.
         thenM (unify A accept leftType rightType (LocationOf self))
           (bindM (readTS (env_resolve (typeSystemOps A) leftType))
              (setAnnotationType self)))))))"









section \<open>Inline assembly\<close>




section \<open>A small type system for concrete runs\<close>

text \<open>
  The concrete runs below need instances of what the walker takes from outside. The
  environment of this type system is the list of the answers that \<^verbatim>\<open>unify\<close> gives to the
  calls still to come, and no failure once the list is used up; every class is declared
  by the node of the same number; \<^verbatim>\<open>fresh\<close> and \<^verbatim>\<open>resolve\<close> return the type they are given.
  The helpers follow the spec: the empty tuple is the unit type and every other tuple,
  function and type-function is the application of a constructor of its own.
\<close>

definition exampleOps :: "UnificationFailure list list TypeSystemOps" where
  "exampleOps =
     \<lparr>primitiveConstructor =
        (\<lambda>p. case p of Void \<Rightarrow> 0 | Word \<Rightarrow> 1 | Integer \<Rightarrow> 2 | Unit \<Rightarrow> 3 | Bool \<Rightarrow> 4),
      constructorArguments = (\<lambda>c ts. 0),
      freshKindVariable = freshTypeVariable,
      declareTypeClass = (\<lambda>v functionTypes name declaration ts. (Inr declaration, ts)),
      instantiateClass = (\<lambda>t arity functionTypes ts. (None, ts)),
      typeClassDeclaration = (\<lambda>c ts. Some c),
      typeClassName = (\<lambda>c ts. ''class''),
      env_unify =
        (\<lambda>a b ts. case env ts of [] \<Rightarrow> ([], ts) | answer # answers \<Rightarrow> (answer, ts\<lparr>env := answers\<rparr>)),
      env_fresh = (\<lambda>t ts. (t, ts)),
      env_resolve = (\<lambda>t ts. t),
      env_sort = (\<lambda>t ts. case t of TypeVariable i srt \<Rightarrow> srt | TypeConstant c args \<Rightarrow> []),
      env_typeClassFunction = (\<lambda>c name ts. None),
      typeVars = (\<lambda>t ts. []),
      typeToString = (\<lambda>t ts. ''type''),
      sortToString = (\<lambda>srt. ''sort'')\<rparr>"

definition exampleHelpers :: TypeSystemHelpers where
  "exampleHelpers =
     \<lparr>tupleType = (\<lambda>ts. if ts = [] then TypeConstant 3 [] else TypeConstant 5 ts),
      destTupleType = (\<lambda>t. case t of TypeConstant c args \<Rightarrow> (if c = 5 then args else [])
                                | TypeVariable i srt \<Rightarrow> [t]),
      functionType = (\<lambda>a r. TypeConstant 6 [a, r]),
      destFunctionType = (\<lambda>t. case t of TypeConstant c [a, r] \<Rightarrow> (if c = 6 then Some (a, r) else None)
                                   | _ \<Rightarrow> None),
      typeFunctionType = (\<lambda>a r. TypeConstant 7 [a, r]),
      destTypeFunctionType = (\<lambda>t. case t of TypeConstant c [a, r] \<Rightarrow> (if c = 7 then Some (a, r) else None)
                                       | _ \<Rightarrow> None)\<rparr>"

text \<open>
  A registration in which the node \<open>n\<close> has the type constructor \<open>100 + n\<close> when \<open>n\<close> is
  below 50 and none otherwise, the built-in integer class is the class 9, and the classes
  have the instantiations given by \<open>insts\<close>.
\<close>

definition exampleRegistration :: "(NodeId \<Rightarrow> (TypeConstructor \<times> NodeId) list) \<Rightarrow> Registration" where
  "exampleRegistration insts =
     \<lparr>typeConstructorOf = (\<lambda>n. if n < 50 then Some (100 + n) else None),
      instantiationsOf = insts,
      operators = Map.empty,
      builtinClasses = [IntegerClass \<mapsto> 9],
      builtinClassInstantiations = Map.empty,
      builtinClassesByName = Map.empty,
      builtinClassFromToken = (\<lambda>t. None)\<rparr>"

definition exampleAnalysis ::
  "(NodeId \<Rightarrow> ASTNode) \<Rightarrow> (NodeId \<Rightarrow> (TypeConstructor \<times> NodeId) list)
     \<Rightarrow> UnificationFailure list list Analysis" where
  "exampleAnalysis tree insts =
     \<lparr>ast = tree,
      registration = exampleRegistration insts,
      typeSystemOps = exampleOps,
      helper = exampleHelpers,
      bigintOfString = cpp_int_of_string,
      precisionBaseX = (\<lambda>mantissa log2OfBase e. True),
      asmAnalyze = (\<lambda>node resolver. returnM True)\<rparr>"

text \<open>
  The state before the walk: no node is annotated, nothing is reported, no variable has
  been handed out, and the environment will give the answers \<open>answers\<close>.
\<close>

definition initialState :: "UnificationFailure list list \<Rightarrow> UnificationFailure list list TypeInference" where
  "initialState answers =
     \<lparr>nodeAnnotation = (\<lambda>n. \<lparr>type = None, typeClass = None\<rparr>),
      globalAnnotation = \<lparr>members = Map.empty\<rparr>,
      assemblyAnnotation = (\<lambda>n. \<lparr>externalReferences = Map.empty, analysisInfo = False\<rparr>),
      m_errorReporter = [],
      m_typeSystem = \<lparr>numTypeVariables = 0, env = answers\<rparr>,
      m_expressionContext = Term,
      m_currentFunctionType = None,
      m_activeInstantiations = {}\<rparr>"

text \<open>
  Modelled from the spec: the dispatch of the syntax tree (AST_accept.h) and the
  declarations of the walker (TypeInference.h) are not part of the file. A source unit
  passes the walker to its nodes in turn; a node of a kind that the walker does not handle
  goes to \<^verbatim>\<open>visitNode\<close>; a literal and an elementary type name expression have no children,
  so their dispatch is their visit function.
\<close>

definition acceptSourceUnit :: "(NodeId \<Rightarrow> (unit, 'e) walk) \<Rightarrow> NodeId list \<Rightarrow> (unit, 'e) walk" where
  "acceptSourceUnit accept nodes = forEachM nodes accept"

definition acceptUnsupported :: "NodeId \<Rightarrow> (unit, 'e) walk" where
  "acceptUnsupported node = bindM (visitNode node) (\<lambda>visitChildren. returnM ())"

definition acceptLiteral :: "'e Analysis \<Rightarrow> NodeId \<Rightarrow> Literal \<Rightarrow> (unit, 'e) walk" where
  "acceptLiteral A node literal =
     bindM (visit_Literal A node literal) (\<lambda>visitChildren. returnM ())"

definition acceptElementaryTypeNameExpression :: "'e Analysis \<Rightarrow> NodeId \<Rightarrow> (unit, 'e) walk" where
  "acceptElementaryTypeNameExpression A node =
     bindM (visit_ElementaryTypeNameExpression A node) (\<lambda>visitChildren. returnM ())"

text \<open>
  Modelled from the spec, as above: a parameter without a type expression has no children,
  and a parameter list passes the walker to its parameters before \<^verbatim>\<open>endVisit\<close> runs.
\<close>

definition acceptParameter :: "'e Analysis \<Rightarrow> NodeId \<Rightarrow> (unit, 'e) walk" where
  "acceptParameter A node =
     bindM (visit_VariableDeclaration A acceptUnsupported node None None)
       (\<lambda>visitChildren. returnM ())"

definition acceptParameterList :: "'e Analysis \<Rightarrow> NodeId \<Rightarrow> (unit, 'e) walk" where
  "acceptParameterList A node =
     thenM (forEachM (parametersOf (ast A node)) (acceptParameter A))
       (endVisit_ParameterList A node (parametersOf (ast A node)))"

text \<open>
  The tree of \<^verbatim>\<open>type T(a) = uint256\<close>: the definition is node 1, its parameter list node 2
  with the parameter node 4, and its type expression the elementary type name node 3. The
  tree of \<^verbatim>\<open>type T = uint256\<close> is the same without the parameter list.
\<close>

definition typeDefinitionTree :: "NodeId \<Rightarrow> ASTNode" where
  "typeDefinitionTree n =
     (if n = 1 then TypeDefinition (Some 2) (Some 3)
      else if n = 2 then ParameterList [4]
      else if n = 3 then ElementaryTypeNameExpression
      else if n = 4 then VariableDeclaration None None
      else OtherNode)"

definition typeDefinitionAccept ::
  "UnificationFailure list list Analysis \<Rightarrow> NodeId \<Rightarrow> (unit, UnificationFailure list list) walk" where
  "typeDefinitionAccept A n =
     (if n = 2 then acceptParameterList A 2
      else if n = 3 then acceptElementaryTypeNameExpression A 3
      else acceptUnsupported n)"

text \<open>
  A tree with the instantiation node 6 of the class that node 3 defines, for the
  constructor of node 9; the name of the class in the instantiation is the identifier
  path node 8. Modelled from the spec, as above: the dispatch of an instantiation and of
  a class definition is their visit function, which returns \<^verbatim>\<open>false\<close>.
\<close>

definition instantiationTree :: "NodeId \<Rightarrow> ASTNode" where
  "instantiationTree n =
     (if n = 6 then TypeClassInstantiation 7 (ClassPath 8) 9 None []
      else if n = 8 then IdentifierPath (Some 3)
      else if n = 3 then TypeClassDefinition ''C'' 10 []
      else OtherNode)"

definition instantiationAnalysis :: "UnificationFailure list list Analysis" where
  "instantiationAnalysis =
     exampleAnalysis instantiationTree (\<lambda>d. if d = 3 then [(101, 6)] else [])"

definition classAccept :: "NodeId \<Rightarrow> (unit, UnificationFailure list list) walk" where
  "classAccept n =
     (if n = 3 then
        bindM (visit_TypeClassDefinition instantiationAnalysis acceptUnsupported 3 ''C'' 10 [])
          (\<lambda>visitChildren. returnM ())
      else acceptUnsupported n)"

definition instantiationAccept :: "NodeId \<Rightarrow> (unit, UnificationFailure list list) walk" where
  "instantiationAccept n =
     (if n = 6 then
        bindM (visit_TypeClassInstantiation instantiationAnalysis classAccept 6 7 (ClassPath 8)
                 9 None [])
          (\<lambda>visitChildren. returnM ())
      else acceptUnsupported n)"

text \<open>
  A state in the middle of a walk of that tree: the class definition has been visited and
  is the class 3, the instantiations \<open>active\<close> are being visited, and the environment will
  answer the next call of \<^verbatim>\<open>unify\<close> with the sort mismatch ``the type constant of
  constructor 101 does not have the sort of class 3'' and the one after it with no failure.
\<close>

definition instantiationState :: "NodeId set \<Rightarrow> UnificationFailure list list TypeInference" where
  "instantiationState active =
     (initialState [ [SortMismatch (TypeConstant 101 []) [3]], []])
       \<lparr>nodeAnnotation := (\<lambda>n. \<lparr>type = None, typeClass = None\<rparr>)
          (3 := \<lparr>type = Some (TypeConstant 103 []), typeClass = Some 3\<rparr>),
        m_activeInstantiations := active\<rparr>"













section \<open>Notions used to state the properties\<close>

text \<open>
  The instantiations of a class as \<^verbatim>\<open>typeClassInstantiations\<close> finds them in a given type
  system, \<open>None\<close> where it throws; the instantiation of a class for a constructor, if it is
  known; and, for a list of unification failures, the instantiations that the failures
  ask for, in the order of the failures and of the classes of their sorts, provided that
  every failure is a sort mismatch on a type constant and that every class of its sort has
  a known instantiation for the constructor of that constant.
\<close>

definition classInstantiations ::
  "'e Analysis \<Rightarrow> 'e TypeSystem \<Rightarrow> TypeClass \<Rightarrow> (TypeConstructor \<times> NodeId) list option" where
  "classInstantiations A ts cls =
     (case typeClassDeclaration (typeSystemOps A) cls ts of
        Some declaration \<Rightarrow> Some (instantiationsOf (registration A) declaration)
      | None \<Rightarrow>
          (case builtinClassesByName (registration A) (typeClassName (typeSystemOps A) cls ts) of
             None \<Rightarrow> None
           | Some builtin \<Rightarrow> builtinClassInstantiations (registration A) builtin))"

definition knownInstantiation ::
  "'e Analysis \<Rightarrow> 'e TypeSystem \<Rightarrow> TypeConstructor \<Rightarrow> TypeClass \<Rightarrow> NodeId option" where
  "knownInstantiation A ts constructor cls =
     (case classInstantiations A ts cls of
        None \<Rightarrow> None
      | Some instantiations \<Rightarrow> map_of instantiations constructor)"

fun requiredInstantiations ::
  "'e Analysis \<Rightarrow> 'e TypeSystem \<Rightarrow> UnificationFailure \<Rightarrow> NodeId list option" where
  "requiredInstantiations A ts (SortMismatch (TypeConstant constructor arguments) srt) =
     those (map (knownInstantiation A ts constructor) srt)"
| "requiredInstantiations A ts (SortMismatch (TypeVariable i s) srt) = None"
| "requiredInstantiations A ts (TypeMismatch a b) = None"
| "requiredInstantiations A ts (RecursiveUnification v t) = None"

definition pendingInstantiations ::
  "'e Analysis \<Rightarrow> 'e TypeSystem \<Rightarrow> UnificationFailure list \<Rightarrow> NodeId list option" where
  "pendingInstantiations A ts failures =
     map_option concat (those (map (requiredInstantiations A ts) failures))"

text \<open>
  The state after the report of a recursion at \<open>loc\<close>: one more diagnostic, to which every
  active instantiation is attached.
\<close>

definition recursionReported :: "SourceLocation \<Rightarrow> 'e TypeInference \<Rightarrow> 'e TypeInference" where
  "recursionReported loc s =
     s\<lparr>m_errorReporter := m_errorReporter s @
       [\<lparr>location = loc,
         secondary = (\<lambda>activeInstantiation.
                        (''Involved instantiation'', LocationOf activeInstantiation))
                     ` m_activeInstantiations s,
         message = ''Recursion during type class instantiation.''\<rparr>]\<rparr>"

text \<open>
  The state after a type error at \<open>loc\<close> and nothing else, without and with secondary
  locations, and the state after a type error followed by the annotation of \<open>node\<close> with a
  fresh type variable of the empty sort.
\<close>

definition reported :: "SourceLocation \<Rightarrow> string \<Rightarrow> 'e TypeInference \<Rightarrow> 'e TypeInference" where
  "reported loc msg s =
     s\<lparr>m_errorReporter := m_errorReporter s @
       [\<lparr>location = loc, secondary = {}, message = msg\<rparr>]\<rparr>"


definition placeholder ::
  "SourceLocation \<Rightarrow> string \<Rightarrow> NodeId \<Rightarrow> 'e TypeInference \<Rightarrow> 'e TypeInference" where
  "placeholder loc msg node s =
     s\<lparr>m_errorReporter := m_errorReporter s @
         [\<lparr>location = loc, secondary = {}, message = msg\<rparr>],
       m_typeSystem := (m_typeSystem s)\<lparr>numTypeVariables :=
         Suc (numTypeVariables (m_typeSystem s))\<rparr>,
       nodeAnnotation := (nodeAnnotation s)(node := (nodeAnnotation s node)\<lparr>type :=
         Some (TypeVariable (numTypeVariables (m_typeSystem s)) [])\<rparr>)\<rparr>"






section \<open>Running the walker\<close>

text \<open>What each step of the walker does to a state.\<close>

lemma returnM_apply: "returnM x s = Inr (x, s)"
  by (simp add: returnM_def)

lemma throwM_apply: "throwM x s = Inl (x, s)"
  by (simp add: throwM_def)

lemma bindM_apply: "bindM m f s = (case m s of Inl x \<Rightarrow> Inl x | Inr (a, s') \<Rightarrow> f a s')"
  by (simp add: bindM_def)

lemma thenM_apply: "thenM m n s = (case m s of Inl x \<Rightarrow> Inl x | Inr (a, s') \<Rightarrow> n s')"
  by (simp add: thenM_def bindM_def)

lemma getM_apply: "getM f s = Inr (f s, s)"
  by (simp add: getM_def)

lemma modifyM_apply: "modifyM f s = Inr ((), f s)"
  by (simp add: modifyM_def)

lemma solAssert_apply:
  "solAssert b s = (if b then Inr ((), s) else Inl (InternalCompilerError, s))"
  by (simp add: solAssert_def returnM_def throwM_def)

lemma callTS_apply:
  "callTS f s = Inr (fst (f (m_typeSystem s)), s\<lparr>m_typeSystem := snd (f (m_typeSystem s))\<rparr>)"
  by (simp add: callTS_def split: prod.splits)

lemma readTS_apply: "readTS f s = Inr (f (m_typeSystem s), s)"
  by (simp add: readTS_def)

lemma typeErrorSecondary_apply:
  "typeErrorSecondary loc ssl msg s =
     Inr ((), s\<lparr>m_errorReporter :=
       m_errorReporter s @ [\<lparr>location = loc, secondary = ssl, message = msg\<rparr>]\<rparr>)"
  by (simp add: typeErrorSecondary_def modifyM_def)

lemma typeError_apply:
  "typeError loc msg s =
     Inr ((), s\<lparr>m_errorReporter :=
       m_errorReporter s @ [\<lparr>location = loc, secondary = {}, message = msg\<rparr>]\<rparr>)"
  by (simp add: typeError_def modifyM_def)

lemma fatalTypeErrorSecondary_apply:
  "fatalTypeErrorSecondary loc ssl msg s =
     Inl (FatalError, s\<lparr>m_errorReporter :=
       m_errorReporter s @ [\<lparr>location = loc, secondary = ssl, message = msg\<rparr>]\<rparr>)"
  by (simp add: fatalTypeErrorSecondary_def)

lemma fatalTypeError_apply:
  "fatalTypeError loc msg s =
     Inl (FatalError, s\<lparr>m_errorReporter :=
       m_errorReporter s @ [\<lparr>location = loc, secondary = {}, message = msg\<rparr>]\<rparr>)"
  by (simp add: fatalTypeError_def fatalTypeErrorSecondary_def)

lemma annotationType_apply: "annotationType node s = Inr (type (nodeAnnotation s node), s)"
  by (simp add: annotationType_def getM_def)

lemma setAnnotationType_apply:
  "setAnnotationType node t s =
     Inr ((), s\<lparr>nodeAnnotation :=
       (nodeAnnotation s)(node := (nodeAnnotation s node)\<lparr>type := Some t\<rparr>)\<rparr>)"
  by (simp add: setAnnotationType_def modifyM_def)

lemma getType_apply:
  "getType node s =
     (case type (nodeAnnotation s node) of
        None \<Rightarrow> Inl (InternalCompilerError, s)
      | Some t \<Rightarrow> Inr (t, s))"
  by (simp add: getType_def annotationType_def getM_def bindM_def throwM_def returnM_def
      split: option.splits)

lemma freshVar_apply:
  "freshVar srt s =
     Inr (TypeVariable (numTypeVariables (m_typeSystem s)) srt,
          s\<lparr>m_typeSystem := (m_typeSystem s)\<lparr>numTypeVariables :=
               Suc (numTypeVariables (m_typeSystem s))\<rparr>\<rparr>)"
  by (simp add: freshVar_def callTS_def freshTypeVariable_def)

lemma assertContext_apply:
  "assertContext c s =
     (if m_expressionContext s = c then Inr ((), s) else Inl (InternalCompilerError, s))"
  by (simp add: assertContext_def bindM_def getM_def solAssert_def returnM_def throwM_def)

lemma setMembers_apply:
  "setMembers constructor typeMembers s =
     Inr ((), s\<lparr>globalAnnotation :=
       (globalAnnotation s)\<lparr>members :=
         (members (globalAnnotation s))(constructor \<mapsto> typeMembers)\<rparr>\<rparr>)"
  by (simp add: setMembers_def modifyM_def)

lemma typeConstructor_apply:
  "typeConstructor A node s =
     (case typeConstructorOf (registration A) node of
        Some constructor \<Rightarrow> Inr (constructor, s)
      | None \<Rightarrow>
          Inl (FatalError, s\<lparr>m_errorReporter :=
            m_errorReporter s @ [\<lparr>location = LocationOf node, secondary = {},
                                  message = ''Unregistered type.''\<rparr>]\<rparr>))"
  by (simp add: typeConstructor_def returnM_def fatalTypeError_apply split: option.splits)

lemma typeOfDeclaration_apply:
  "typeOfDeclaration A node arguments s =
     (case typeConstructorOf (registration A) node of
        Some constructor \<Rightarrow> Inr (TypeConstant constructor arguments, s)
      | None \<Rightarrow>
          Inl (FatalError, s\<lparr>m_errorReporter :=
            m_errorReporter s @ [\<lparr>location = LocationOf node, secondary = {},
                                  message = ''Unregistered type.''\<rparr>]\<rparr>))"
  by (simp add: typeOfDeclaration_def bindM_def typeConstructor_apply returnM_def
      typeSystem_type_def split: option.splits)

lemma scopedExpressionContext_apply:
  "scopedExpressionContext c m s =
     (case m (s\<lparr>m_expressionContext := c\<rparr>) of
        Inl (x, s') \<Rightarrow> Inl (x, s'\<lparr>m_expressionContext := m_expressionContext s\<rparr>)
      | Inr (a, s') \<Rightarrow> Inr (a, s'\<lparr>m_expressionContext := m_expressionContext s\<rparr>))"
  by (simp add: scopedExpressionContext_def)

lemma scopedCurrentFunctionType_apply:
  "scopedCurrentFunctionType t m s =
     (case m (s\<lparr>m_currentFunctionType := t\<rparr>) of
        Inl (x, s') \<Rightarrow> Inl (x, s'\<lparr>m_currentFunctionType := m_currentFunctionType s\<rparr>)
      | Inr (a, s') \<Rightarrow> Inr (a, s'\<lparr>m_currentFunctionType := m_currentFunctionType s\<rparr>))"
  by (simp add: scopedCurrentFunctionType_def)

lemma scopedActiveInstantiations_apply:
  "scopedActiveInstantiations f m s =
     (case m (s\<lparr>m_activeInstantiations := f s\<rparr>) of
        Inl (x, s') \<Rightarrow> Inl (x, s'\<lparr>m_activeInstantiations := m_activeInstantiations s\<rparr>)
      | Inr (a, s') \<Rightarrow> Inr (a, s'\<lparr>m_activeInstantiations := m_activeInstantiations s\<rparr>))"
  by (simp add: scopedActiveInstantiations_def)

lemmas walk_simps =
  returnM_apply throwM_apply bindM_apply thenM_apply getM_apply modifyM_apply solAssert_apply
  callTS_apply readTS_apply typeErrorSecondary_apply typeError_apply
  fatalTypeErrorSecondary_apply fatalTypeError_apply annotationType_apply
  setAnnotationType_apply getType_apply freshVar_apply assertContext_apply setMembers_apply
  typeConstructor_apply typeOfDeclaration_apply scopedExpressionContext_apply
  scopedCurrentFunctionType_apply scopedActiveInstantiations_apply

lemma mapM_freshVar:
  "mapM (\<lambda>p. freshVar []) ps s =
     Inr (map (\<lambda>i. TypeVariable i [])
            [numTypeVariables (m_typeSystem s) ..< numTypeVariables (m_typeSystem s) + length ps],
          s\<lparr>m_typeSystem := (m_typeSystem s)\<lparr>numTypeVariables :=
               numTypeVariables (m_typeSystem s) + length ps\<rparr>\<rparr>)"
proof (induction ps arbitrary: s)
  case Nil
  show ?case by (simp add: returnM_apply)
next
  case (Cons p ps)
  have step: "freshVar [] s =
      Inr (TypeVariable (numTypeVariables (m_typeSystem s)) [],
           s\<lparr>m_typeSystem := (m_typeSystem s)\<lparr>numTypeVariables :=
                Suc (numTypeVariables (m_typeSystem s))\<rparr>\<rparr>)"
    by (rule freshVar_apply)
  show ?case
    by (simp only: mapM.simps bindM_apply step Cons.IH)
      (simp add: returnM_apply upt_conv_Cons del: upt_Suc)
qed

lemma exampleAnalysis_fields:
  "ast (exampleAnalysis tree insts) = tree"
  "typeConstructorOf (registration (exampleAnalysis tree insts)) = (\<lambda>n. if n < 50 then Some (100 + n) else None)"
  "helper (exampleAnalysis tree insts) = exampleHelpers"
  "typeSystemOps (exampleAnalysis tree insts) = exampleOps"
  "instantiationsOf (registration (exampleAnalysis tree insts)) = insts"
  by (simp_all add: exampleAnalysis_def exampleRegistration_def)

section \<open>Properties of numeric parsing\<close>

lemma rationalValue_factor:
  "rationalValue bigintOf fitsX \<lparr>token = t, valueWithoutUnderscores = s, subDenomination = d\<rparr> =
     map_option (\<lambda>v. v * of_int (subDenominationFactor d)) (parsedValue bigintOf fitsX s)"
  by (simp add: rationalValue_def split: option.splits)

text \<open>
  Claim C5. \<^verbatim>\<open>rationalValue\<close> returns the value parsed from the digits multiplied by the
  factor of the literal's sub-denomination: 1 for none, wei and second, \<open>10\<^sup>9\<close> for gwei,
  \<open>10\<^sup>1\<^sup>8\<close> for ether, 60 for minute, 3600 for hour, 86400 for day, 604800 for week and
  31536000 for year; a literal that does not parse stays rejected. The literal
  \<^verbatim>\<open>1 ether\<close> has the value \<open>10\<^sup>1\<^sup>8\<close>.
\<close>

theorem rationalValue_subDenomination:
  "rationalValue bigintOf fitsX \<lparr>token = t, valueWithoutUnderscores = s, subDenomination = NoneSD\<rparr>
     = parsedValue bigintOf fitsX s
   \<and> rationalValue bigintOf fitsX \<lparr>token = t, valueWithoutUnderscores = s, subDenomination = Wei\<rparr>
     = map_option (\<lambda>v. v * 1) (parsedValue bigintOf fitsX s)
   \<and> rationalValue bigintOf fitsX \<lparr>token = t, valueWithoutUnderscores = s, subDenomination = Second\<rparr>
     = map_option (\<lambda>v. v * 1) (parsedValue bigintOf fitsX s)
   \<and> rationalValue bigintOf fitsX \<lparr>token = t, valueWithoutUnderscores = s, subDenomination = Gwei\<rparr>
     = map_option (\<lambda>v. v * 10 ^ 9) (parsedValue bigintOf fitsX s)
   \<and> rationalValue bigintOf fitsX \<lparr>token = t, valueWithoutUnderscores = s, subDenomination = Ether\<rparr>
     = map_option (\<lambda>v. v * 10 ^ 18) (parsedValue bigintOf fitsX s)
   \<and> rationalValue bigintOf fitsX \<lparr>token = t, valueWithoutUnderscores = s, subDenomination = Minute\<rparr>
     = map_option (\<lambda>v. v * 60) (parsedValue bigintOf fitsX s)
   \<and> rationalValue bigintOf fitsX \<lparr>token = t, valueWithoutUnderscores = s, subDenomination = Hour\<rparr>
     = map_option (\<lambda>v. v * 3600) (parsedValue bigintOf fitsX s)
   \<and> rationalValue bigintOf fitsX \<lparr>token = t, valueWithoutUnderscores = s, subDenomination = Day\<rparr>
     = map_option (\<lambda>v. v * 86400) (parsedValue bigintOf fitsX s)
   \<and> rationalValue bigintOf fitsX \<lparr>token = t, valueWithoutUnderscores = s, subDenomination = Week\<rparr>
     = map_option (\<lambda>v. v * 604800) (parsedValue bigintOf fitsX s)
   \<and> rationalValue bigintOf fitsX \<lparr>token = t, valueWithoutUnderscores = s, subDenomination = Year\<rparr>
     = map_option (\<lambda>v. v * 31536000) (parsedValue bigintOf fitsX s)
   \<and> rationalValue cpp_int_of_string fitsX
       \<lparr>token = Number, valueWithoutUnderscores = ''1'', subDenomination = Ether\<rparr>
     = Some (10 ^ 18)"
proof -
  have one: "parsedValue cpp_int_of_string fitsX ''1'' = Some 1"
    by (simp add: parsedValue_def starts_with_def expPoint_def parseRational_def
        cpp_int_of_string_def digitValue_def)
  have id: "map_option (\<lambda>v::rat. v) x = x" for x
    by (cases x) simp_all
  show ?thesis
    unfolding rationalValue_factor
    by (simp add: subDenominationFactor_def one id)
qed

theorem rationalValue_subDenomination_witness:
  "rationalValue cpp_int_of_string (\<lambda>_ _ _. True)
     \<lparr>token = Number, valueWithoutUnderscores = ''2'', subDenomination = Gwei\<rparr> = Some 2000000000
   \<and> rationalValue cpp_int_of_string (\<lambda>_ _ _. True)
     \<lparr>token = Number, valueWithoutUnderscores = ''1.5'', subDenomination = Minute\<rparr> = Some 90
   \<and> rationalValue cpp_int_of_string (\<lambda>_ _ _. True)
     \<lparr>token = Number, valueWithoutUnderscores = ''1'', subDenomination = Ether\<rparr>
     = Some 1000000000000000000"
proof -
  have two: "parsedValue cpp_int_of_string (\<lambda>_ _ _. True) ''2'' = Some 2"
    by (simp add: parsedValue_def starts_with_def expPoint_def parseRational_def
        cpp_int_of_string_def digitValue_def)
  have frac: "parsedValue cpp_int_of_string (\<lambda>_ _ _. True) ''1.5'' = Some (3 / 2)"
    by (simp add: parsedValue_def starts_with_def expPoint_def parseRational_def
        cpp_int_of_string_def digitValue_def isDigit_def)
  show ?thesis
    using rationalValue_subDenomination
      [of cpp_int_of_string "\<lambda>_ _ _. True" Number "''2''"]
      rationalValue_subDenomination
      [of cpp_int_of_string "\<lambda>_ _ _. True" Number "''1.5''"]
    by (simp add: two frac)
qed

text \<open>
  Claim C9. A literal in scientific notation (an \<^verbatim>\<open>e\<close> or \<^verbatim>\<open>E\<close> in a string that does not
  start with \<^verbatim>\<open>0x\<close>) whose mantissa parses to zero is rejected, whatever follows the
  exponent mark: the test of the mantissa comes before the exponent is read. So
  \<^verbatim>\<open>0e0\<close> is rejected as \<^verbatim>\<open>0e5\<close> is.
\<close>

theorem rationalValue_zero_mantissa:
  assumes "\<not> starts_with (valueWithoutUnderscores lit) ''0x''"
    and "expPoint (valueWithoutUnderscores lit) \<noteq> length (valueWithoutUnderscores lit)"
    and "parseRational bigintOf
           (take (expPoint (valueWithoutUnderscores lit)) (valueWithoutUnderscores lit)) = Some 0"
  shows "rationalValue bigintOf fitsX lit = None"
  using assms by (simp add: rationalValue_def parsedValue_def scientificValue_def)

theorem rationalValue_zero_mantissa_witness:
  "rationalValue cpp_int_of_string (\<lambda>_ _ _. True)
     \<lparr>token = Number, valueWithoutUnderscores = ''0e0'', subDenomination = NoneSD\<rparr> = None
   \<and> rationalValue cpp_int_of_string (\<lambda>_ _ _. True)
     \<lparr>token = Number, valueWithoutUnderscores = ''0e5'', subDenomination = NoneSD\<rparr> = None
   \<and> rationalValue cpp_int_of_string (\<lambda>_ _ _. True)
     \<lparr>token = Number, valueWithoutUnderscores = ''0.0E-x'', subDenomination = Ether\<rparr> = None
   \<and> rationalValue cpp_int_of_string (\<lambda>_ _ _. True)
     \<lparr>token = Number, valueWithoutUnderscores = ''1e0'', subDenomination = NoneSD\<rparr> = Some 1"
proof -
  have a: "rationalValue cpp_int_of_string (\<lambda>_ _ _. True)
     \<lparr>token = Number, valueWithoutUnderscores = ''0e0'', subDenomination = NoneSD\<rparr> = None"
    by (rule rationalValue_zero_mantissa)
      (simp_all add: starts_with_def expPoint_def parseRational_def cpp_int_of_string_def
        digitValue_def)
  have b: "rationalValue cpp_int_of_string (\<lambda>_ _ _. True)
     \<lparr>token = Number, valueWithoutUnderscores = ''0e5'', subDenomination = NoneSD\<rparr> = None"
    by (rule rationalValue_zero_mantissa)
      (simp_all add: starts_with_def expPoint_def parseRational_def cpp_int_of_string_def
        digitValue_def)
  have c: "rationalValue cpp_int_of_string (\<lambda>_ _ _. True)
     \<lparr>token = Number, valueWithoutUnderscores = ''0.0E-x'', subDenomination = Ether\<rparr> = None"
    by (rule rationalValue_zero_mantissa)
      (simp_all add: starts_with_def expPoint_def parseRational_def cpp_int_of_string_def
        digitValue_def isDigit_def)
  have d: "rationalValue cpp_int_of_string (\<lambda>_ _ _. True)
     \<lparr>token = Number, valueWithoutUnderscores = ''1e0'', subDenomination = NoneSD\<rparr> = Some 1"
    by (simp add: rationalValue_def parsedValue_def scientificValue_def starts_with_def
        expPoint_def parseRational_def cpp_int_of_string_def digitValue_def
        subDenominationFactor_def)
  from a b c d show ?thesis by simp
qed

section \<open>Properties of the visit of a literal\<close>

text \<open>
  Claim C4. \<^verbatim>\<open>visit(Literal)\<close> rejects a literal whose token is not a number, and a number
  whose value (after the exponent and the sub-denomination have been applied) has a
  denominator other than 1, each with a type error and nothing else. A literal that it
  accepts is annotated with the next unused type variable, whose sort holds the built-in
  integer class and no other class.
\<close>

theorem visit_Literal_contract:
  "(token lit \<noteq> Number \<longrightarrow>
      visit_Literal A self lit s =
        Inr (False, s\<lparr>m_errorReporter := m_errorReporter s @
          [\<lparr>location = LocationOf self, secondary = {},
            message = ''Only number literals are supported.''\<rparr>]\<rparr>))
   \<and> (token lit = Number \<longrightarrow> rationalValue (bigintOfString A) (precisionBaseX A) lit = Some v
        \<longrightarrow> denominator v \<noteq> 1 \<longrightarrow>
      visit_Literal A self lit s =
        Inr (False, s\<lparr>m_errorReporter := m_errorReporter s @
          [\<lparr>location = LocationOf self, secondary = {},
            message = ''Only integers are supported.''\<rparr>]\<rparr>))
   \<and> (token lit = Number \<longrightarrow> rationalValue (bigintOfString A) (precisionBaseX A) lit = Some v
        \<longrightarrow> denominator v = 1
        \<longrightarrow> builtinClasses (registration A) IntegerClass = Some integerClass \<longrightarrow>
      visit_Literal A self lit s =
        Inr (False,
          s\<lparr>m_typeSystem := (m_typeSystem s)\<lparr>numTypeVariables :=
                Suc (numTypeVariables (m_typeSystem s))\<rparr>,
            nodeAnnotation := (nodeAnnotation s)(self := (nodeAnnotation s self)\<lparr>type :=
                Some (TypeVariable (numTypeVariables (m_typeSystem s)) [integerClass])\<rparr>)\<rparr>))"
  by (simp add: visit_Literal_def walk_simps)

lemma exampleAnalysis_numeric:
  "bigintOfString (exampleAnalysis tree insts) = cpp_int_of_string"
  "precisionBaseX (exampleAnalysis tree insts) = (\<lambda>mantissa log2OfBase e. True)"
  "builtinClasses (registration (exampleAnalysis tree insts)) IntegerClass = Some 9"
  by (simp_all add: exampleAnalysis_def exampleRegistration_def)

lemma example_fraction:
  "rationalValue cpp_int_of_string (\<lambda>mantissa log2OfBase e. True)
     \<lparr>token = Number, valueWithoutUnderscores = ''1.5'', subDenomination = NoneSD\<rparr>
   = Some (3 / 2)"
  by (simp add: rationalValue_def parsedValue_def starts_with_def expPoint_def
      parseRational_def cpp_int_of_string_def digitValue_def isDigit_def
      subDenominationFactor_def)

lemma example_ether:
  "rationalValue cpp_int_of_string (\<lambda>mantissa log2OfBase e. True)
     \<lparr>token = Number, valueWithoutUnderscores = ''2'', subDenomination = Ether\<rparr>
   = Some 2000000000000000000"
  by (simp add: rationalValue_def parsedValue_def starts_with_def expPoint_def
      parseRational_def cpp_int_of_string_def digitValue_def subDenominationFactor_def)

lemma denominator_three_halves: "denominator (3 / 2) = 2"
  unfolding denominator_def by code_simp

lemma denominator_numeral: "denominator (numeral k) = 1"
  by (simp add: denominator_def)

theorem visit_Literal_contract_witness:
  "visit_Literal (exampleAnalysis (\<lambda>n. OtherNode) (\<lambda>n. [])) 7
     \<lparr>token = OtherToken 0, valueWithoutUnderscores = ''abc'', subDenomination = NoneSD\<rparr>
     (initialState [])
   = Inr (False, (initialState [])\<lparr>m_errorReporter :=
       [\<lparr>location = LocationOf 7, secondary = {},
         message = ''Only number literals are supported.''\<rparr>]\<rparr>)
   \<and> visit_Literal (exampleAnalysis (\<lambda>n. OtherNode) (\<lambda>n. [])) 7
     \<lparr>token = Number, valueWithoutUnderscores = ''1.5'', subDenomination = NoneSD\<rparr>
     (initialState [])
   = Inr (False, (initialState [])\<lparr>m_errorReporter :=
       [\<lparr>location = LocationOf 7, secondary = {},
         message = ''Only integers are supported.''\<rparr>]\<rparr>)
   \<and> type (nodeAnnotation (snd (projr
       (visit_Literal (exampleAnalysis (\<lambda>n. OtherNode) (\<lambda>n. [])) 7
          \<lparr>token = Number, valueWithoutUnderscores = ''2'', subDenomination = Ether\<rparr>
          (initialState [])))) 7)
   = Some (TypeVariable 0 [9])"
proof -
  have a: "visit_Literal (exampleAnalysis (\<lambda>n. OtherNode) (\<lambda>n. [])) 7
     \<lparr>token = OtherToken 0, valueWithoutUnderscores = ''abc'', subDenomination = NoneSD\<rparr>
     (initialState [])
   = Inr (False, (initialState [])\<lparr>m_errorReporter :=
       [\<lparr>location = LocationOf 7, secondary = {},
         message = ''Only number literals are supported.''\<rparr>]\<rparr>)"
    using visit_Literal_contract
      [where lit = "\<lparr>token = OtherToken 0, valueWithoutUnderscores = ''abc'',
                      subDenomination = NoneSD\<rparr>"
         and A = "exampleAnalysis (\<lambda>n. OtherNode) (\<lambda>n. [])" and self = 7
         and s = "initialState []"]
    by (simp add: initialState_def)
  have b: "visit_Literal (exampleAnalysis (\<lambda>n. OtherNode) (\<lambda>n. [])) 7
     \<lparr>token = Number, valueWithoutUnderscores = ''1.5'', subDenomination = NoneSD\<rparr>
     (initialState [])
   = Inr (False, (initialState [])\<lparr>m_errorReporter :=
       [\<lparr>location = LocationOf 7, secondary = {},
         message = ''Only integers are supported.''\<rparr>]\<rparr>)"
    using visit_Literal_contract
      [where lit = "\<lparr>token = Number, valueWithoutUnderscores = ''1.5'',
                      subDenomination = NoneSD\<rparr>"
         and A = "exampleAnalysis (\<lambda>n. OtherNode) (\<lambda>n. [])" and self = 7
         and s = "initialState []" and v = "3 / 2"]
    by (simp add: exampleAnalysis_numeric example_fraction denominator_three_halves
        initialState_def)
  have c: "visit_Literal (exampleAnalysis (\<lambda>n. OtherNode) (\<lambda>n. [])) 7
          \<lparr>token = Number, valueWithoutUnderscores = ''2'', subDenomination = Ether\<rparr>
          (initialState [])
   = Inr (False,
          (initialState [])\<lparr>m_typeSystem := (m_typeSystem (initialState []))\<lparr>numTypeVariables :=
                Suc (numTypeVariables (m_typeSystem (initialState [])))\<rparr>,
            nodeAnnotation := (nodeAnnotation (initialState []))(7 :=
              (nodeAnnotation (initialState []) 7)\<lparr>type :=
                Some (TypeVariable (numTypeVariables (m_typeSystem (initialState []))) [9])\<rparr>)\<rparr>)"
    using visit_Literal_contract
      [where lit = "\<lparr>token = Number, valueWithoutUnderscores = ''2'',
                      subDenomination = Ether\<rparr>"
         and A = "exampleAnalysis (\<lambda>n. OtherNode) (\<lambda>n. [])" and self = 7
         and s = "initialState []" and v = "2000000000000000000" and integerClass = 9]
    by (simp add: exampleAnalysis_numeric example_ether denominator_numeral)
  show ?thesis
    unfolding a b c by (simp add: initialState_def)
qed


section \<open>Properties of the entry point\<close>

text \<open>
  Claim C7, as stated, fails: when the walk meets a node that the walker does not support,
  an error is reported and \<^verbatim>\<open>analyze\<close> does not return \<^verbatim>\<open>false\<close>; it is left by the
  \<^verbatim>\<open>FatalError\<close> that \<^verbatim>\<open>fatalTypeError\<close> throws.
\<close>

theorem analyze_fatal_counterexample:
  "analyze (\<lambda>sourceUnit. acceptSourceUnit acceptUnsupported [1]) 0 (initialState [])
   = Inl (FatalError, (initialState [])\<lparr>m_errorReporter :=
       [\<lparr>location = LocationOf 1, secondary = {},
         message = ''Unsupported AST node during type inference.''\<rparr>]\<rparr>)"
  by (simp add: analyze_def acceptSourceUnit_def acceptUnsupported_def visitNode_def
      walk_simps initialState_def)

text \<open>
  Claim C7, amended. When the walk of the source unit returns, \<^verbatim>\<open>analyze\<close> returns
  \<^verbatim>\<open>false\<close> if the shared error reporter holds an error and \<^verbatim>\<open>true\<close> if it holds none; so an
  error reported during a walk that returns makes the result \<^verbatim>\<open>false\<close>. When the walk is left
  by an exception, \<^verbatim>\<open>analyze\<close> is left by the same exception with the state reached, and
  returns no value.
\<close>

theorem analyze_result:
  "(accept sourceUnit s = Inr ((), s') \<longrightarrow>
      analyze accept sourceUnit s = Inr (m_errorReporter s' = [], s'))
   \<and> (accept sourceUnit s = Inr ((), s') \<longrightarrow> m_errorReporter s' = m_errorReporter s @ d # ds \<longrightarrow>
      analyze accept sourceUnit s = Inr (False, s'))
   \<and> (accept sourceUnit s = Inl (x, s') \<longrightarrow> analyze accept sourceUnit s = Inl (x, s'))"
  by (simp add: analyze_def hasErrors_def walk_simps)

theorem analyze_result_witness:
  "analyze (\<lambda>sourceUnit. acceptLiteral (exampleAnalysis (\<lambda>n. OtherNode) (\<lambda>n. [])) 1
       \<lparr>token = Number, valueWithoutUnderscores = ''2'', subDenomination = Ether\<rparr>)
     0 (initialState [])
   = Inr (True, (initialState [])\<lparr>m_typeSystem := \<lparr>numTypeVariables = 1, env = []\<rparr>,
       nodeAnnotation := (\<lambda>n. \<lparr>type = None, typeClass = None\<rparr>)
         (1 := \<lparr>type = Some (TypeVariable 0 [9]), typeClass = None\<rparr>)\<rparr>)
   \<and> analyze (\<lambda>sourceUnit. acceptLiteral (exampleAnalysis (\<lambda>n. OtherNode) (\<lambda>n. [])) 1
       \<lparr>token = OtherToken 0, valueWithoutUnderscores = ''abc'', subDenomination = NoneSD\<rparr>)
     0 (initialState [])
   = Inr (False, (initialState [])\<lparr>m_errorReporter :=
       [\<lparr>location = LocationOf 1, secondary = {},
         message = ''Only number literals are supported.''\<rparr>]\<rparr>)
   \<and> analyze acceptUnsupported 0 (initialState [])
   = Inl (FatalError, (initialState [])\<lparr>m_errorReporter :=
       [\<lparr>location = LocationOf 0, secondary = {},
         message = ''Unsupported AST node during type inference.''\<rparr>]\<rparr>)"
proof -
  let ?A = "exampleAnalysis (\<lambda>n. OtherNode) (\<lambda>n. [])"
  let ?good = "\<lparr>token = Number, valueWithoutUnderscores = ''2'', subDenomination = Ether\<rparr>"
  let ?bad = "\<lparr>token = OtherToken 0, valueWithoutUnderscores = ''abc'',
               subDenomination = NoneSD\<rparr>"
  let ?s1 = "(initialState [])\<lparr>m_typeSystem := \<lparr>numTypeVariables = 1, env = []\<rparr>,
       nodeAnnotation := (\<lambda>n. \<lparr>type = None, typeClass = None\<rparr>)
         (1 := \<lparr>type = Some (TypeVariable 0 [9]), typeClass = None\<rparr>)\<rparr>"
  let ?s2 = "(initialState [])\<lparr>m_errorReporter :=
       [\<lparr>location = LocationOf 1, secondary = {},
         message = ''Only number literals are supported.''\<rparr>]\<rparr>"
  let ?s3 = "(initialState [])\<lparr>m_errorReporter :=
       [\<lparr>location = LocationOf 0, secondary = {},
         message = ''Unsupported AST node during type inference.''\<rparr>]\<rparr>"
  have good: "acceptLiteral ?A 1 ?good (initialState []) = Inr ((), ?s1)"
    by (simp add: acceptLiteral_def visit_Literal_def walk_simps exampleAnalysis_numeric
        example_ether denominator_numeral initialState_def)
  have bad: "acceptLiteral ?A 1 ?bad (initialState []) = Inr ((), ?s2)"
    by (simp add: acceptLiteral_def visit_Literal_def walk_simps initialState_def)
  have fatal: "acceptUnsupported 0 (initialState []) = Inl (FatalError, ?s3)"
    by (simp add: acceptUnsupported_def visitNode_def walk_simps initialState_def)
  have a: "analyze (\<lambda>sourceUnit. acceptLiteral ?A 1 ?good) 0 (initialState []) = Inr (True, ?s1)"
    using analyze_result
      [where accept = "\<lambda>sourceUnit. acceptLiteral ?A 1 ?good" and sourceUnit = 0
         and s = "initialState []" and s' = ?s1]
      good
    by (simp add: initialState_def)
  have b: "analyze (\<lambda>sourceUnit. acceptLiteral ?A 1 ?bad) 0 (initialState []) = Inr (False, ?s2)"
    using analyze_result
      [where accept = "\<lambda>sourceUnit. acceptLiteral ?A 1 ?bad" and sourceUnit = 0
         and s = "initialState []" and s' = ?s2]
      bad
    by (simp add: initialState_def)
  have c: "analyze acceptUnsupported 0 (initialState []) = Inl (FatalError, ?s3)"
    using analyze_result
      [where accept = acceptUnsupported and sourceUnit = 0
         and s = "initialState []" and s' = ?s3 and x = FatalError]
      fatal
    by simp
  from a b c show ?thesis by simp
qed


section \<open>Properties of member access and type definitions\<close>

text \<open>
  Claim C8. In \<^verbatim>\<open>endVisit(MemberAccess)\<close>, when the type of the expression is a type constant
  whose constructor has no entry in the members table, the lookup \<^verbatim>\<open>members.at\<close> throws:
  the walker is left by the exception with its state as it was, so without a diagnostic.
  An exception never comes with a diagnostic of this function, and the error
  ``Member not found.'' is reported only when the constructor has an entry that lacks the
  member name.
\<close>

theorem endVisit_MemberAccess_lookup:
  "(type (nodeAnnotation s self) = None \<longrightarrow>
    type (nodeAnnotation s expression) = Some (TypeConstant constructor arguments) \<longrightarrow>
    members (globalAnnotation s) constructor = None \<longrightarrow>
      endVisit_MemberAccess A self expression memberName s = Inl (OutOfRange, s))
   \<and> (endVisit_MemberAccess A self expression memberName s = Inl (x, s') \<longrightarrow> s' = s)
   \<and> (endVisit_MemberAccess A self expression memberName s = Inr ((), s') \<longrightarrow>
        m_errorReporter s' = m_errorReporter s @ [d] \<longrightarrow> message d = ''Member not found.'' \<longrightarrow>
        (\<exists>c args typeMembers.
           type (nodeAnnotation s expression) = Some (TypeConstant c args)
           \<and> members (globalAnnotation s) c = Some typeMembers
           \<and> typeMembers memberName = None))"
proof (intro conjI impI)
  assume "type (nodeAnnotation s self) = None"
    and "type (nodeAnnotation s expression) = Some (TypeConstant constructor arguments)"
    and "members (globalAnnotation s) constructor = None"
  then show "endVisit_MemberAccess A self expression memberName s = Inl (OutOfRange, s)"
    by (simp add: endVisit_MemberAccess_def walk_simps isTypeConstant_def)
next
  assume "endVisit_MemberAccess A self expression memberName s = Inl (x, s')"
  then show "s' = s"
    by (auto simp add: endVisit_MemberAccess_def walk_simps isTypeConstant_def
        split: option.splits if_splits Type.splits)
next
  assume run: "endVisit_MemberAccess A self expression memberName s = Inr ((), s')"
    and reported: "m_errorReporter s' = m_errorReporter s @ [d]"
    and msg: "message d = ''Member not found.''"
  show "\<exists>c args typeMembers.
           type (nodeAnnotation s expression) = Some (TypeConstant c args)
           \<and> members (globalAnnotation s) c = Some typeMembers
           \<and> typeMembers memberName = None"
  proof (cases "type (nodeAnnotation s expression)")
    case None
    with run show ?thesis
      by (simp add: endVisit_MemberAccess_def walk_simps split: option.splits if_splits)
  next
    case (Some t)
    show ?thesis
    proof (cases t)
      case (TypeVariable i srt)
      with Some run reported msg show ?thesis
        by (auto simp add: endVisit_MemberAccess_def walk_simps isTypeConstant_def
            split: option.splits if_splits)
    next
      case (TypeConstant c args)
      show ?thesis
      proof (cases "members (globalAnnotation s) c")
        case None
        with Some TypeConstant run show ?thesis
          by (simp add: endVisit_MemberAccess_def walk_simps isTypeConstant_def
              split: option.splits if_splits)
      next
        case entry: (Some typeMembers)
        show ?thesis
        proof (cases "typeMembers memberName")
          case None
          with Some TypeConstant entry show ?thesis by simp
        next
          case found: (Some typeMember)
          with Some TypeConstant entry run reported show ?thesis
            by (auto simp add: endVisit_MemberAccess_def walk_simps isTypeConstant_def
                split: option.splits if_splits)
        qed
      qed
    qed
  qed
qed

theorem endVisit_MemberAccess_lookup_witness:
  "endVisit_MemberAccess (exampleAnalysis (\<lambda>n. OtherNode) (\<lambda>n. [])) 1 2 ''x''
     ((initialState [])\<lparr>nodeAnnotation := (nodeAnnotation (initialState []))
        (2 := \<lparr>type = Some (TypeConstant 101 []), typeClass = None\<rparr>)\<rparr>)
   = Inl (OutOfRange,
     (initialState [])\<lparr>nodeAnnotation := (nodeAnnotation (initialState []))
        (2 := \<lparr>type = Some (TypeConstant 101 []), typeClass = None\<rparr>)\<rparr>)
   \<and> m_errorReporter (snd (projr (endVisit_MemberAccess
         (exampleAnalysis (\<lambda>n. OtherNode) (\<lambda>n. [])) 1 2 ''x''
         ((initialState [])\<lparr>nodeAnnotation := (nodeAnnotation (initialState []))
            (2 := \<lparr>type = Some (TypeConstant 101 []), typeClass = None\<rparr>),
            globalAnnotation := \<lparr>members = [101 \<mapsto> Map.empty]\<rparr>\<rparr>))))
     = [\<lparr>location = MemberLocationOf 1, secondary = {}, message = ''Member not found.''\<rparr>]"
proof -
  let ?A = "exampleAnalysis (\<lambda>n. OtherNode) (\<lambda>n. [])"
  let ?s = "(initialState [])\<lparr>nodeAnnotation := (nodeAnnotation (initialState []))
        (2 := \<lparr>type = Some (TypeConstant 101 []), typeClass = None\<rparr>)\<rparr>"
  have "endVisit_MemberAccess ?A 1 2 ''x'' ?s = Inl (OutOfRange, ?s)"
    using endVisit_MemberAccess_lookup
      [where s = ?s and self = 1 and expression = 2 and constructor = 101
         and arguments = "[]" and A = ?A and memberName = "''x''"]
    by (simp add: initialState_def)
  moreover have "m_errorReporter (snd (projr (endVisit_MemberAccess ?A 1 2 ''x''
         ((initialState [])\<lparr>nodeAnnotation := (nodeAnnotation (initialState []))
            (2 := \<lparr>type = Some (TypeConstant 101 []), typeClass = None\<rparr>),
            globalAnnotation := \<lparr>members = [101 \<mapsto> Map.empty]\<rparr>\<rparr>))))
     = [\<lparr>location = MemberLocationOf 1, secondary = {}, message = ''Member not found.''\<rparr>]"
    by (simp add: endVisit_MemberAccess_def walk_simps isTypeConstant_def initialState_def)
  ultimately show ?thesis by simp
qed

text \<open>
  Claim C6. A first visit of a type definition with a type expression, where the visits of
  the arguments and of the type expression return, the type expression has got the type
  \<open>underlying\<close>, the definition has a registered constructor and the members table has no
  entry for it yet, returns with this: the constructor's entry in the members table holds
  exactly the two members \<^verbatim>\<open>abs\<close>, of the function type from the underlying to the defined
  type, and \<^verbatim>\<open>rep\<close>, of the function type from the defined to the underlying type; the
  entries of the other constructors are as the visit of the type expression left them;
  and the node is annotated with the defined type (the constructor applied to no
  argument) when the definition has no parameters, and with the type-function from the
  tuple of fresh variables, one for each parameter, to the defined type otherwise.
\<close>

theorem visit_TypeDefinition_members:
  assumes unannotated: "type (nodeAnnotation s self) = None"
    and registered: "typeConstructorOf (registration A) self = Some constructor"
    and args: "(case arguments of Some list \<Rightarrow> accept list | None \<Rightarrow> returnM ()) s = Inr ((), sa)"
    and expr: "accept expression (sa\<lparr>m_expressionContext := Type\<rparr>) = Inr ((), sb)"
    and underlying: "type (nodeAnnotation sb expression) = Some underlying"
    and noEntry: "members (globalAnnotation sb) constructor = None"
  shows "let parameters = (case arguments of Some list \<Rightarrow> parametersOf (ast A list) | None \<Rightarrow> []);
             first = numTypeVariables (m_typeSystem sb);
             typeArguments = map (\<lambda>i. TypeVariable i []) [first ..< first + length parameters];
             definedType = TypeConstant constructor typeArguments
         in \<exists>s'. visit_TypeDefinition A accept self arguments (Some expression) s = Inr (False, s')
              \<and> members (globalAnnotation s') constructor =
                  Some [''abs'' \<mapsto> \<lparr>memberType = functionType (helper A) underlying definedType\<rparr>,
                        ''rep'' \<mapsto> \<lparr>memberType = functionType (helper A) definedType underlying\<rparr>]
              \<and> dom (the (members (globalAnnotation s') constructor)) = {''abs'', ''rep''}
              \<and> (\<forall>c. c \<noteq> constructor \<longrightarrow>
                    members (globalAnnotation s') c = members (globalAnnotation sb) c)
              \<and> (parameters = [] \<longrightarrow> type (nodeAnnotation s' self) = Some definedType)
              \<and> (parameters \<noteq> [] \<longrightarrow> type (nodeAnnotation s' self) =
                    Some (typeFunctionType (helper A) (tupleType (helper A) typeArguments)
                            definedType))"
proof (cases arguments)
  case None
  with assms show ?thesis
    by (auto simp add: visit_TypeDefinition_def walk_simps)
next
  case (Some list)
  with assms show ?thesis
    by (auto simp add: visit_TypeDefinition_def walk_simps mapM_freshVar Let_def)
qed

theorem visit_TypeDefinition_members_witness:
  "members (globalAnnotation (snd (projr
      (visit_TypeDefinition (exampleAnalysis typeDefinitionTree (\<lambda>n. []))
         (typeDefinitionAccept (exampleAnalysis typeDefinitionTree (\<lambda>n. [])))
         1 (Some 2) (Some 3) (initialState []))))) 101
   = Some [''abs'' \<mapsto> \<lparr>memberType =
              TypeConstant 6 [TypeConstant 103 [], TypeConstant 101 [TypeVariable 1 []]]\<rparr>,
           ''rep'' \<mapsto> \<lparr>memberType =
              TypeConstant 6 [TypeConstant 101 [TypeVariable 1 []], TypeConstant 103 []]\<rparr>]
   \<and> type (nodeAnnotation (snd (projr
      (visit_TypeDefinition (exampleAnalysis typeDefinitionTree (\<lambda>n. []))
         (typeDefinitionAccept (exampleAnalysis typeDefinitionTree (\<lambda>n. [])))
         1 (Some 2) (Some 3) (initialState [])))) 1)
   = Some (TypeConstant 7 [TypeConstant 5 [TypeVariable 1 []],
                           TypeConstant 101 [TypeVariable 1 []]])
   \<and> type (nodeAnnotation (snd (projr
      (visit_TypeDefinition (exampleAnalysis typeDefinitionTree (\<lambda>n. []))
         (typeDefinitionAccept (exampleAnalysis typeDefinitionTree (\<lambda>n. [])))
         1 None (Some 3) (initialState [])))) 1)
   = Some (TypeConstant 101 [])"
proof -
  let ?A = "exampleAnalysis typeDefinitionTree (\<lambda>n. [])"
  let ?s1 = "(initialState [])\<lparr>m_typeSystem := \<lparr>numTypeVariables = 1, env = []\<rparr>,
      nodeAnnotation := (\<lambda>n. \<lparr>type = None, typeClass = None\<rparr>)
        (4 := \<lparr>type = Some (TypeVariable 0 []), typeClass = None\<rparr>,
         2 := \<lparr>type = Some (TypeConstant 5 [TypeVariable 0 []]), typeClass = None\<rparr>)\<rparr>"
  let ?s2 = "?s1\<lparr>m_expressionContext := Type,
      nodeAnnotation := (nodeAnnotation ?s1)
        (3 := \<lparr>type = Some (TypeConstant 103 []), typeClass = None\<rparr>)\<rparr>"
  let ?t2 = "(initialState [])\<lparr>m_expressionContext := Type,
      nodeAnnotation := (\<lambda>n. \<lparr>type = None, typeClass = None\<rparr>)
        (3 := \<lparr>type = Some (TypeConstant 103 []), typeClass = None\<rparr>)\<rparr>"
  have list: "typeDefinitionAccept ?A 2 (initialState []) = Inr ((), ?s1)"
    by (simp add: typeDefinitionAccept_def acceptParameterList_def acceptParameter_def
        visit_VariableDeclaration_def endVisit_ParameterList_def exampleAnalysis_fields
        typeDefinitionTree_def parametersOf_def walk_simps initialState_def exampleHelpers_def)
  have expr: "typeDefinitionAccept ?A 3 (?s1\<lparr>m_expressionContext := Type\<rparr>) = Inr ((), ?s2)"
    by (simp add: typeDefinitionAccept_def acceptElementaryTypeNameExpression_def
        visit_ElementaryTypeNameExpression_def exampleAnalysis_fields exampleOps_def
        typeSystem_type_def walk_simps initialState_def)
  have expr': "typeDefinitionAccept ?A 3 ((initialState [])\<lparr>m_expressionContext := Type\<rparr>)
      = Inr ((), ?t2)"
    by (simp add: typeDefinitionAccept_def acceptElementaryTypeNameExpression_def
        visit_ElementaryTypeNameExpression_def exampleAnalysis_fields exampleOps_def
        typeSystem_type_def walk_simps initialState_def)
  have a: "\<exists>s'. visit_TypeDefinition ?A (typeDefinitionAccept ?A) 1 (Some 2) (Some 3)
              (initialState []) = Inr (False, s')
       \<and> members (globalAnnotation s') 101 =
           Some [''abs'' \<mapsto> \<lparr>memberType =
              TypeConstant 6 [TypeConstant 103 [], TypeConstant 101 [TypeVariable 1 []]]\<rparr>,
           ''rep'' \<mapsto> \<lparr>memberType =
              TypeConstant 6 [TypeConstant 101 [TypeVariable 1 []], TypeConstant 103 []]\<rparr>]
       \<and> type (nodeAnnotation s' 1) =
           Some (TypeConstant 7 [TypeConstant 5 [TypeVariable 1 []],
                           TypeConstant 101 [TypeVariable 1 []]])"
    using visit_TypeDefinition_members
      [where s = "initialState []" and self = 1 and A = ?A and constructor = 101
         and arguments = "Some 2" and accept = "typeDefinitionAccept ?A" and sa = ?s1
         and expression = 3 and sb = ?s2 and underlying = "TypeConstant 103 []"]
      list expr
    by (auto simp add: exampleAnalysis_fields typeDefinitionTree_def parametersOf_def
        exampleHelpers_def initialState_def Let_def)
  have b: "\<exists>s'. visit_TypeDefinition ?A (typeDefinitionAccept ?A) 1 None (Some 3)
              (initialState []) = Inr (False, s')
       \<and> type (nodeAnnotation s' 1) = Some (TypeConstant 101 [])"
    using visit_TypeDefinition_members
      [where s = "initialState []" and self = 1 and A = ?A and constructor = 101
         and arguments = None and accept = "typeDefinitionAccept ?A" and sa = "initialState []"
         and expression = 3 and sb = ?t2 and underlying = "TypeConstant 103 []"]
      expr'
    by (auto simp add: exampleAnalysis_fields returnM_apply initialState_def Let_def)
  from a b show ?thesis by auto
qed

section \<open>Properties of unification\<close>

lemma typeClassInstantiations_apply:
  "typeClassInstantiations A cls s =
     (case classInstantiations A (m_typeSystem s) cls of
        Some instantiations \<Rightarrow> Inr (instantiations, s)
      | None \<Rightarrow> Inl (OutOfRange, s))"
  by (simp add: typeClassInstantiations_def classInstantiations_def walk_simps
      split: option.splits)

lemma those_Cons_Some:
  "those (x # xs) = Some ys \<longleftrightarrow> (\<exists>y zs. x = Some y \<and> those xs = Some zs \<and> ys = y # zs)"
  by (cases x) auto

lemma classesLoop_known:
  assumes "those (map (knownInstantiation A (m_typeSystem s) c) classes) = Some insts"
  shows "classesLoop A loc c classes scan s =
     (if set insts \<inter> m_activeInstantiations s = {} then
        Inr ((True, scan\<lparr>missingInstantiations := missingInstantiations scan @ insts\<rparr>), s)
      else
        Inr ((False, scan\<lparr>missingInstantiations := missingInstantiations scan
                 @ takeWhile (\<lambda>i. i \<notin> m_activeInstantiations s) insts,
               recursion := True\<rparr>),
             recursionReported loc s))"
  using assms
proof (induction classes arbitrary: scan insts)
  case Nil
  then show ?case by (simp add: returnM_apply)
next
  case (Cons cls classes)
  from Cons.prems obtain inst rest where
    known: "knownInstantiation A (m_typeSystem s) c cls = Some inst"
    and rest: "those (map (knownInstantiation A (m_typeSystem s) c) classes) = Some rest"
    and insts: "insts = inst # rest"
    by (auto split: option.splits)
  from known obtain table where
    table: "classInstantiations A (m_typeSystem s) cls = Some table"
    and entry: "map_of table c = Some inst"
    by (auto simp add: knownInstantiation_def split: option.splits)
  show ?case
  proof (cases "inst \<in> m_activeInstantiations s")
    case True
    then show ?thesis
      by (simp add: typeClassInstantiations_apply table entry insts walk_simps
          recursionReported_def)
  next
    case False
    then show ?thesis
      by (simp add: typeClassInstantiations_apply table entry insts walk_simps
          Cons.IH [OF rest])
  qed
qed

lemma requiredInstantiations_Some:
  "requiredInstantiations A ts f = Some req \<Longrightarrow>
     \<exists>c args srt. f = SortMismatch (TypeConstant c args) srt
       \<and> those (map (knownInstantiation A ts c) srt) = Some req"
  by (induction A ts f rule: requiredInstantiations.induct) auto

lemma failuresLoop_pending:
  assumes "those (map (requiredInstantiations A (m_typeSystem s)) failures) = Some reqs"
  shows "failuresLoop A loc failures scan s =
     (if set (concat reqs) \<inter> m_activeInstantiations s = {} then
        Inr ((True, scan\<lparr>missingInstantiations := missingInstantiations scan @ concat reqs\<rparr>), s)
      else
        Inr ((False, scan\<lparr>missingInstantiations := missingInstantiations scan
                 @ takeWhile (\<lambda>i. i \<notin> m_activeInstantiations s) (concat reqs),
               recursion := True\<rparr>),
             recursionReported loc s))"
  using assms
proof (induction failures arbitrary: scan reqs)
  case Nil
  then show ?case by (simp add: returnM_apply)
next
  case (Cons failure failures)
  from Cons.prems obtain req rest where
    req: "requiredInstantiations A (m_typeSystem s) failure = Some req"
    and rest: "those (map (requiredInstantiations A (m_typeSystem s)) failures) = Some rest"
    and reqs: "reqs = req # rest"
    by (auto split: option.splits)
  from req obtain c args srt where
    failure: "failure = SortMismatch (TypeConstant c args) srt"
    and known: "those (map (knownInstantiation A (m_typeSystem s) c) srt) = Some req"
    by (auto dest: requiredInstantiations_Some)
  show ?case
  proof (cases "set req \<inter> m_activeInstantiations s = {}")
    case True
    then have all: "\<forall>i\<in>set req. i \<notin> m_activeInstantiations s" by auto
    show ?thesis
      using True
      by (simp add: failure isTypeConstant_def bindM_apply classesLoop_known [OF known]
          Cons.IH [OF rest] reqs Int_Un_distrib2 takeWhile_append2 [OF all [rule_format]])
  next
    case False
    then obtain i where i: "i \<in> set req" "\<not> i \<notin> m_activeInstantiations s" by auto
    have cut: "takeWhile (\<lambda>i. i \<notin> m_activeInstantiations s) (req @ ys)
        = takeWhile (\<lambda>i. i \<notin> m_activeInstantiations s) req" for ys
      using i by (rule takeWhile_append1)
    show ?thesis
      using False
      by (simp add: failure isTypeConstant_def bindM_apply classesLoop_known [OF known]
          reqs Int_Un_distrib2 returnM_apply cut)
  qed
qed

lemma reportFailures_apply:
  "reportFailures A loc failures s =
     Inr ((), s\<lparr>m_errorReporter := m_errorReporter s @
       map (\<lambda>failure. \<lparr>location = loc, secondary = {},
                         message = failureMessage A failure (m_typeSystem s)\<rparr>) failures\<rparr>)"
proof (induction failures arbitrary: s)
  case Nil
  show ?case by (simp add: reportFailures_def returnM_apply)
next
  case (Cons failure failures)
  have step: "reportFailures A loc (failure # failures) s =
      (case typeError loc (failureMessage A failure (m_typeSystem s)) s of
         Inl x \<Rightarrow> Inl x
       | Inr (u, s') \<Rightarrow> reportFailures A loc failures s')"
    unfolding reportFailures_def by (simp add: thenM_apply bindM_apply readTS_apply)
  show ?case
    unfolding step by (simp add: typeError_apply Cons.IH)
qed

lemma instantiationAnalysis_fields:
  "ast instantiationAnalysis = instantiationTree"
  "typeSystemOps instantiationAnalysis = exampleOps"
  "helper instantiationAnalysis = exampleHelpers"
  "registration instantiationAnalysis
     = exampleRegistration (\<lambda>d. if d = 3 then [(101, 6)] else [])"
  by (simp_all add: instantiationAnalysis_def exampleAnalysis_def)

lemma example_first_unify:
  "env_unify (typeSystemOps instantiationAnalysis) a b (m_typeSystem (instantiationState active))
   = ([SortMismatch (TypeConstant 101 []) [3]], \<lparr>numTypeVariables = 0, env = [ [] ]\<rparr>)"
  by (simp add: instantiationAnalysis_fields exampleOps_def instantiationState_def
      initialState_def)

lemma example_pending:
  "pendingInstantiations instantiationAnalysis ts [SortMismatch (TypeConstant 101 []) [3]]
   = Some [6]"
  by (simp add: pendingInstantiations_def knownInstantiation_def classInstantiations_def
      instantiationAnalysis_fields exampleOps_def exampleRegistration_def)

lemma example_visit:
  "forEachM [6] instantiationAccept
     ((instantiationState {5})\<lparr>m_typeSystem := \<lparr>numTypeVariables = 0, env = [ [] ]\<rparr>\<rparr>)
   = Inr ((), (instantiationState {5})\<lparr>m_typeSystem := \<lparr>numTypeVariables = 0, env = [ [] ]\<rparr>,
        nodeAnnotation := (nodeAnnotation (instantiationState {5}))
          (6 := \<lparr>type = Some (TypeConstant 0 []), typeClass = None\<rparr>)\<rparr>)"
  by (simp add: instantiationAccept_def visit_TypeClassInstantiation_def instantiationClass_def
      classAccept_def visit_TypeClassDefinition_def instantiationFunctions.simps
      instantiationAnalysis_fields instantiationTree_def referencedDeclaration_def
      isTypeClassDefinition_def exampleRegistration_def exampleOps_def m_voidType_def
      typeSystem_type_def walk_simps instantiationState_def initialState_def)

text \<open>
  Claim C1. Let the set of active instantiations be non-empty, and let every failure of the
  first run of the unification be a sort mismatch on a type constant such that each class
  of the sort has a known instantiation for the constructor of the constant; \<open>missing\<close> is
  the list of these instantiations. If one of them is active, \<^verbatim>\<open>unify\<close> reports
  ``Recursion during type class instantiation.'' once, with every active instantiation as a
  secondary location, and returns: no instantiation is visited, the unification is not
  run again and no failure is reported. Otherwise it visits the missing instantiations in
  order, runs the unification once more on the state the visits have led to, and reports
  the failures of this second run, one diagnostic for each and those only; an exception
  of one of the visits leaves \<^verbatim>\<open>unify\<close>.
\<close>

theorem unify_pending_instantiations:
  assumes active: "m_activeInstantiations s \<noteq> {}"
    and first: "env_unify (typeSystemOps A) a b (m_typeSystem s) = (failures, ts)"
    and pending: "pendingInstantiations A ts failures = Some missing"
  shows "(set missing \<inter> m_activeInstantiations s \<noteq> {} \<longrightarrow>
            unify A accept a b loc s = Inr ((), recursionReported loc (s\<lparr>m_typeSystem := ts\<rparr>)))
   \<and> (set missing \<inter> m_activeInstantiations s = {} \<longrightarrow>
        forEachM missing accept (s\<lparr>m_typeSystem := ts\<rparr>) = Inr ((), visited) \<longrightarrow>
        env_unify (typeSystemOps A) a b (m_typeSystem visited) = (failures', ts') \<longrightarrow>
            unify A accept a b loc s =
              Inr ((), visited\<lparr>m_typeSystem := ts',
                     m_errorReporter := m_errorReporter visited @
                       map (\<lambda>failure. \<lparr>location = loc, secondary = {},
                                         message = failureMessage A failure ts'\<rparr>) failures'\<rparr>))
   \<and> (set missing \<inter> m_activeInstantiations s = {} \<longrightarrow>
        forEachM missing accept (s\<lparr>m_typeSystem := ts\<rparr>) = Inl x \<longrightarrow>
            unify A accept a b loc s = Inl x)"
proof -
  from pending obtain reqs where
    reqs: "those (map (requiredInstantiations A ts) failures) = Some reqs"
    and missing: "missing = concat reqs"
    by (auto simp add: pendingInstantiations_def)
  let ?s = "s\<lparr>m_typeSystem := ts\<rparr>"
  have reqs': "those (map (requiredInstantiations A (m_typeSystem ?s)) failures) = Some reqs"
    using reqs by simp
  have start: "unify A accept a b loc s =
      (case failuresLoop A loc failures \<lparr>missingInstantiations = [], recursion = False\<rparr> ?s of
         Inl x \<Rightarrow> Inl x
       | Inr ((onlyMissingInstantiations, scan), s') \<Rightarrow>
           if recursion scan then Inr ((), s')
           else if onlyMissingInstantiations then
             thenM (forEachM (missingInstantiations scan) accept)
               (bindM (callTS (env_unify (typeSystemOps A) a b)) (reportFailures A loc)) s'
           else reportFailures A loc failures s')"
    using active first
    by (simp add: unify_def bindM_apply callTS_apply getM_apply returnM_apply
        split: sum.splits prod.splits)
  show ?thesis
    unfolding start failuresLoop_pending [OF reqs']
    by (simp add: missing thenM_apply bindM_apply callTS_apply reportFailures_apply
        split: sum.splits prod.splits)
qed

theorem unify_pending_instantiations_witness:
  "unify instantiationAnalysis instantiationAccept (TypeVariable 0 [3]) (TypeConstant 101 [])
     (LocationOf 1) (instantiationState {6})
   = Inr ((), (instantiationState {6})\<lparr>m_typeSystem := \<lparr>numTypeVariables = 0, env = [ [] ]\<rparr>,
        m_errorReporter :=
          [\<lparr>location = LocationOf 1,
            secondary = {(''Involved instantiation'', LocationOf 6)},
            message = ''Recursion during type class instantiation.''\<rparr>]\<rparr>)
   \<and> unify instantiationAnalysis instantiationAccept (TypeVariable 0 [3]) (TypeConstant 101 [])
     (LocationOf 1) (instantiationState {5})
   = Inr ((), (instantiationState {5})\<lparr>m_typeSystem := \<lparr>numTypeVariables = 0, env = []\<rparr>,
        nodeAnnotation := (nodeAnnotation (instantiationState {5}))
          (6 := \<lparr>type = Some (TypeConstant 0 []), typeClass = None\<rparr>)\<rparr>)"
proof -
  let ?a = "TypeVariable 0 [3]"
  let ?b = "TypeConstant 101 []"
  let ?ts = "\<lparr>numTypeVariables = 0, env = [ [] ] :: UnificationFailure list list\<rparr>"
  let ?visited = "(instantiationState {5})\<lparr>m_typeSystem := ?ts,
        nodeAnnotation := (nodeAnnotation (instantiationState {5}))
          (6 := \<lparr>type = Some (TypeConstant 0 []), typeClass = None\<rparr>)\<rparr>"
  have second: "env_unify (typeSystemOps instantiationAnalysis) ?a ?b (m_typeSystem ?visited)
      = ([], \<lparr>numTypeVariables = 0, env = []\<rparr>)"
    by (simp add: instantiationAnalysis_fields exampleOps_def)
  have recursive: "unify instantiationAnalysis instantiationAccept ?a ?b (LocationOf 1)
      (instantiationState {6})
    = Inr ((), recursionReported (LocationOf 1) ((instantiationState {6})\<lparr>m_typeSystem := ?ts\<rparr>))"
    using unify_pending_instantiations
      [where s = "instantiationState {6}" and A = instantiationAnalysis and a = ?a and b = ?b
         and failures = "[SortMismatch (TypeConstant 101 []) [3]]" and ts = ?ts
         and missing = "[6]" and accept = instantiationAccept and loc = "LocationOf 1",
       OF _ example_first_unify example_pending]
    by (simp add: instantiationState_def)
  have retried: "unify instantiationAnalysis instantiationAccept ?a ?b (LocationOf 1)
      (instantiationState {5})
    = Inr ((), ?visited\<lparr>m_typeSystem := \<lparr>numTypeVariables = 0, env = []\<rparr>,
         m_errorReporter := m_errorReporter ?visited @
           map (\<lambda>failure. \<lparr>location = LocationOf 1, secondary = {},
                  message = failureMessage instantiationAnalysis failure
                              \<lparr>numTypeVariables = 0, env = []\<rparr>\<rparr>) []\<rparr>)"
    using unify_pending_instantiations
      [where s = "instantiationState {5}" and A = instantiationAnalysis and a = ?a and b = ?b
         and failures = "[SortMismatch (TypeConstant 101 []) [3]]" and ts = ?ts
         and missing = "[6]" and accept = instantiationAccept and loc = "LocationOf 1"
         and visited = ?visited and failures' = "[]"
         and ts' = "\<lparr>numTypeVariables = 0, env = []\<rparr>",
       OF _ example_first_unify example_pending]
      example_visit second
    by (simp add: instantiationState_def)
  show ?thesis
    unfolding recursive retried
    by (simp add: recursionReported_def instantiationState_def initialState_def)
qed

section \<open>Fatal diagnostics\<close>
































































































































section \<open>A second walk of an annotated tree\<close>






section \<open>Error paths and placeholders\<close>

text \<open>
  Claim C10, as stated, fails in its second half: not every other error path of the walker
  annotates the node with a fresh type variable. The end of the visit of a statement that
  declares two variables reports its error and leaves the statement without a type, as
  the visit of a rejected literal does; and the visit of an instantiation whose class name
  is not a class reports its error on a node that it has annotated with the void type,
  which is a type constant.
\<close>

theorem placeholder_counterexample:
  "endVisit_VariableDeclarationStatement (exampleAnalysis (\<lambda>n. OtherNode) (\<lambda>d. []))
     acceptUnsupported 1 [2, 3] None (initialState [])
   = Inr ((), (initialState [])\<lparr>m_errorReporter :=
       [\<lparr>location = LocationOf 1, secondary = {},
         message = ''Multi variable declaration not supported.''\<rparr>]\<rparr>)
   \<and> type (nodeAnnotation ((initialState [])\<lparr>m_errorReporter :=
       [\<lparr>location = LocationOf 1, secondary = {},
         message = ''Multi variable declaration not supported.''\<rparr>]\<rparr>) 1) = None
   \<and> visit_TypeClassInstantiation (exampleAnalysis (\<lambda>n. OtherNode) (\<lambda>d. []))
     acceptUnsupported 6 7 (ClassToken (OtherToken 0)) 9 None [] (initialState [])
   = Inr (False, (initialState [])\<lparr>m_errorReporter :=
       [\<lparr>location = LocationOf 6, secondary = {}, message = ''Invalid type class name.''\<rparr>],
       nodeAnnotation := (\<lambda>n. \<lparr>type = None, typeClass = None\<rparr>)
         (6 := \<lparr>type = Some (TypeConstant 0 []), typeClass = None\<rparr>)\<rparr>)"
  by (simp add: endVisit_VariableDeclarationStatement_def visit_TypeClassInstantiation_def
      instantiationClass_def exampleAnalysis_def exampleRegistration_def exampleOps_def
      m_voidType_def typeSystem_type_def walk_simps initialState_def)

text \<open>
  Claim C10, amended. When a literal is rejected (its token is not a number, its value
  does not parse, or its value is not an integer), \<^verbatim>\<open>visit(Literal)\<close> reports the error
  and returns with the annotations as they were, so with the type of the node still empty
  on a first visit. This is unlike the error paths of the visits of an elementary type
  name expression, a binary operation, a variable declaration, an assignment and a member
  access, which annotate the node with a fresh type variable of the empty sort as a
  placeholder.
\<close>

theorem rejected_literal_unannotated:
  "(token lit \<noteq> Number \<longrightarrow>
      visit_Literal A self lit s
      = Inr (False, reported (LocationOf self) ''Only number literals are supported.'' s))
   \<and> (token lit = Number \<longrightarrow> rationalValue (bigintOfString A) (precisionBaseX A) lit = None \<longrightarrow>
      visit_Literal A self lit s
      = Inr (False, reported (LocationOf self) ''Invalid number literals.'' s))
   \<and> (token lit = Number \<longrightarrow> rationalValue (bigintOfString A) (precisionBaseX A) lit = Some v
        \<longrightarrow> denominator v \<noteq> 1 \<longrightarrow>
      visit_Literal A self lit s
      = Inr (False, reported (LocationOf self) ''Only integers are supported.'' s))
   \<and> nodeAnnotation (reported loc msg s) = nodeAnnotation s
   \<and> (type (nodeAnnotation s self) = None \<longrightarrow> m_expressionContext s \<noteq> Type \<longrightarrow>
      visit_ElementaryTypeNameExpression A self s
      = Inr (False, placeholder (LocationOf self)
          ''Elementary type name expression only supported in type context.'' self s))
   \<and> (type (nodeAnnotation s self) = None \<longrightarrow> m_expressionContext s = Type \<longrightarrow>
       typeConstructorOf (registration A) self = None \<longrightarrow>
      visit_ElementaryTypeNameExpression A self s
      = Inr (False, placeholder (LocationOf self)
          ''No type constructor registered for elementary type name.'' self s))
   \<and> (type (nodeAnnotation s self) = None \<longrightarrow> m_expressionContext s = Term \<longrightarrow>
       operators (registration A) operator = None \<longrightarrow>
      visit_BinaryOperation A accept self operator left right s
      = Inr (False, placeholder (LocationOf self)
          ''Binary operation in term context not yet supported.'' self s))
   \<and> (type (nodeAnnotation s self) = None \<longrightarrow> m_expressionContext s = Type \<longrightarrow>
       operator \<noteq> Colon \<longrightarrow> operator \<noteq> RightArrow \<longrightarrow>
      visit_BinaryOperation A accept self operator left right s
      = Inr (False, placeholder (LocationOf self)
          ''Invalid binary operations in type context.'' self s))
   \<and> (type (nodeAnnotation s self) = None \<longrightarrow> m_expressionContext s = Sort \<longrightarrow>
      visit_BinaryOperation A accept self operator left right s
      = Inr (False, placeholder (LocationOf self)
          ''Invalid binary operation in sort context.'' self s))
   \<and> (type (nodeAnnotation s self) = None \<longrightarrow> m_expressionContext s = Sort \<longrightarrow>
      visit_VariableDeclaration A accept self None expression s
      = Inr (False, placeholder (LocationOf self)
          ''Variable declaration in sort context.'' self s))
   \<and> (type (nodeAnnotation s self) = None \<longrightarrow> m_expressionContext s \<noteq> Term \<longrightarrow>
      endVisit_Assignment A accept self left right s
      = Inr ((), placeholder (LocationOf self) ''Assignment outside term context.'' self s))
   \<and> (m_expressionContext s \<noteq> Term \<longrightarrow>
      visit_MemberAccess self s
      = Inr (False, placeholder (LocationOf self)
          ''Member access outside term context.'' self s))
   \<and> (type (nodeAnnotation s self) = None \<longrightarrow>
       type (nodeAnnotation s left) = Some (TypeVariable i srt) \<longrightarrow>
      endVisit_MemberAccess A self left memberName s
      = Inr ((), placeholder (LocationOf left)
          ''Unsupported member access expression.'' self s))
   \<and> (type (nodeAnnotation s self) = None \<longrightarrow>
       type (nodeAnnotation s left) = Some (TypeConstant c args) \<longrightarrow>
       members (globalAnnotation s) c = Some typeMembers \<longrightarrow> typeMembers memberName = None \<longrightarrow>
      endVisit_MemberAccess A self left memberName s
      = Inr ((), placeholder (MemberLocationOf self) ''Member not found.'' self s))
   \<and> type (nodeAnnotation (placeholder loc msg self s) self)
       = Some (TypeVariable (numTypeVariables (m_typeSystem s)) [])"
proof (intro conjI impI)
  assume "token lit \<noteq> Number"
  then show "visit_Literal A self lit s
      = Inr (False, reported (LocationOf self) ''Only number literals are supported.'' s)"
    by (simp add: visit_Literal_def walk_simps reported_def)
next
  assume "token lit = Number"
    and "rationalValue (bigintOfString A) (precisionBaseX A) lit = None"
  then show "visit_Literal A self lit s
      = Inr (False, reported (LocationOf self) ''Invalid number literals.'' s)"
    by (simp add: visit_Literal_def walk_simps reported_def)
next
  assume "token lit = Number"
    and "rationalValue (bigintOfString A) (precisionBaseX A) lit = Some v"
    and "denominator v \<noteq> 1"
  then show "visit_Literal A self lit s
      = Inr (False, reported (LocationOf self) ''Only integers are supported.'' s)"
    by (simp add: visit_Literal_def walk_simps reported_def)
next
  show "nodeAnnotation (reported loc msg s) = nodeAnnotation s"
    by (simp add: reported_def)
next
  assume "type (nodeAnnotation s self) = None" and "m_expressionContext s \<noteq> Type"
  then show "visit_ElementaryTypeNameExpression A self s
      = Inr (False, placeholder (LocationOf self)
          ''Elementary type name expression only supported in type context.'' self s)"
    by (simp add: visit_ElementaryTypeNameExpression_def walk_simps placeholder_def)
next
  assume "type (nodeAnnotation s self) = None" and "m_expressionContext s = Type"
    and "typeConstructorOf (registration A) self = None"
  then show "visit_ElementaryTypeNameExpression A self s
      = Inr (False, placeholder (LocationOf self)
          ''No type constructor registered for elementary type name.'' self s)"
    by (simp add: visit_ElementaryTypeNameExpression_def walk_simps placeholder_def)
next
  assume "type (nodeAnnotation s self) = None" and "m_expressionContext s = Term"
    and "operators (registration A) operator = None"
  then show "visit_BinaryOperation A accept self operator left right s
      = Inr (False, placeholder (LocationOf self)
          ''Binary operation in term context not yet supported.'' self s)"
    by (simp add: visit_BinaryOperation_def walk_simps placeholder_def)
next
  assume "type (nodeAnnotation s self) = None" and "m_expressionContext s = Type"
    and "operator \<noteq> Colon" and "operator \<noteq> RightArrow"
  then show "visit_BinaryOperation A accept self operator left right s
      = Inr (False, placeholder (LocationOf self)
          ''Invalid binary operations in type context.'' self s)"
    by (simp add: visit_BinaryOperation_def walk_simps placeholder_def)
next
  assume "type (nodeAnnotation s self) = None" and "m_expressionContext s = Sort"
  then show "visit_BinaryOperation A accept self operator left right s
      = Inr (False, placeholder (LocationOf self)
          ''Invalid binary operation in sort context.'' self s)"
    by (simp add: visit_BinaryOperation_def walk_simps placeholder_def)
next
  assume "type (nodeAnnotation s self) = None" and "m_expressionContext s = Sort"
  then show "visit_VariableDeclaration A accept self None expression s
      = Inr (False, placeholder (LocationOf self)
          ''Variable declaration in sort context.'' self s)"
    by (simp add: visit_VariableDeclaration_def walk_simps placeholder_def)
next
  assume "type (nodeAnnotation s self) = None" and "m_expressionContext s \<noteq> Term"
  then show "endVisit_Assignment A accept self left right s
      = Inr ((), placeholder (LocationOf self) ''Assignment outside term context.'' self s)"
    by (simp add: endVisit_Assignment_def walk_simps placeholder_def)
next
  assume "m_expressionContext s \<noteq> Term"
  then show "visit_MemberAccess self s
      = Inr (False, placeholder (LocationOf self)
          ''Member access outside term context.'' self s)"
    by (simp add: visit_MemberAccess_def walk_simps placeholder_def)
next
  assume "type (nodeAnnotation s self) = None"
    and "type (nodeAnnotation s left) = Some (TypeVariable i srt)"
  then show "endVisit_MemberAccess A self left memberName s
      = Inr ((), placeholder (LocationOf left)
          ''Unsupported member access expression.'' self s)"
    by (simp add: endVisit_MemberAccess_def walk_simps placeholder_def isTypeConstant_def)
next
  assume "type (nodeAnnotation s self) = None"
    and "type (nodeAnnotation s left) = Some (TypeConstant c args)"
    and "members (globalAnnotation s) c = Some typeMembers"
    and "typeMembers memberName = None"
  then show "endVisit_MemberAccess A self left memberName s
      = Inr ((), placeholder (MemberLocationOf self) ''Member not found.'' self s)"
    by (simp add: endVisit_MemberAccess_def walk_simps placeholder_def isTypeConstant_def)
next
  show "type (nodeAnnotation (placeholder loc msg self s) self)
       = Some (TypeVariable (numTypeVariables (m_typeSystem s)) [])"
    by (simp add: placeholder_def)
qed

lemma example_unparsable:
  "rationalValue cpp_int_of_string (\<lambda>mantissa log2OfBase e. True)
     \<lparr>token = Number, valueWithoutUnderscores = ''0e0'', subDenomination = NoneSD\<rparr> = None"
  by (simp add: rationalValue_def parsedValue_def scientificValue_def starts_with_def
      expPoint_def parseRational_def cpp_int_of_string_def digitValue_def)

theorem rejected_literal_unannotated_witness:
  "visit_Literal (exampleAnalysis (\<lambda>n. OtherNode) (\<lambda>d. [])) 7
     \<lparr>token = Number, valueWithoutUnderscores = ''0e0'', subDenomination = NoneSD\<rparr>
     (initialState [])
   = Inr (False, (initialState [])\<lparr>m_errorReporter :=
       [\<lparr>location = LocationOf 7, secondary = {}, message = ''Invalid number literals.''\<rparr>]\<rparr>)
   \<and> visit_BinaryOperation (exampleAnalysis (\<lambda>n. OtherNode) (\<lambda>d. [])) acceptUnsupported 7
     (OtherToken 0) 8 9 (initialState [])
   = Inr (False, (initialState [])\<lparr>m_errorReporter :=
       [\<lparr>location = LocationOf 7, secondary = {},
         message = ''Binary operation in term context not yet supported.''\<rparr>],
       m_typeSystem := \<lparr>numTypeVariables = 1, env = []\<rparr>,
       nodeAnnotation := (\<lambda>n. \<lparr>type = None, typeClass = None\<rparr>)
         (7 := \<lparr>type = Some (TypeVariable 0 []), typeClass = None\<rparr>)\<rparr>)"
proof -
  let ?A = "exampleAnalysis (\<lambda>n. OtherNode) (\<lambda>d. [])"
  let ?lit = "\<lparr>token = Number, valueWithoutUnderscores = ''0e0'', subDenomination = NoneSD\<rparr>"
  note all = rejected_literal_unannotated
    [where lit = ?lit and A = ?A and self = 7 and s = "initialState []"
       and operator = "OtherToken 0" and accept = acceptUnsupported and left = 8 and right = 9]
  have literal: "visit_Literal ?A 7 ?lit (initialState [])
      = Inr (False, reported (LocationOf 7) ''Invalid number literals.'' (initialState []))"
    using all [THEN conjunct2, THEN conjunct1]
    by (simp add: exampleAnalysis_numeric example_unparsable)
  have operation: "visit_BinaryOperation ?A acceptUnsupported 7 (OtherToken 0) 8 9
        (initialState [])
      = Inr (False, placeholder (LocationOf 7)
          ''Binary operation in term context not yet supported.'' 7 (initialState []))"
    using all [THEN conjunct2, THEN conjunct2, THEN conjunct2, THEN conjunct2, THEN conjunct2,
               THEN conjunct2, THEN conjunct1]
    by (simp add: exampleAnalysis_def exampleRegistration_def initialState_def)
  show ?thesis
    unfolding literal operation
    by (simp add: reported_def placeholder_def initialState_def)
qed

end
